theory Spec2Isabelle
  imports Main "HOL-Library.Word" "HOL-Library.Sublist"
begin

unbundle bit_operations_syntax

section \<open>Errors, values and the machine the program runs on\<close>

text \<open>
  A Go \<^verbatim>\<open>error\<close> is a value. \<open>Ext\<close> is an error produced outside the program (by the
  operating system or an external tool), \<open>Errorf\<close> one made by \<^verbatim>\<open>fmt.Errorf\<close> or
  \<^verbatim>\<open>errors.New\<close>, \<open>Wrapf\<close> one made by \<^verbatim>\<open>errors.Wrap\<close>/\<^verbatim>\<open>errors.Wrapf\<close> around an inner
  error. A message is kept as its format string with its arguments, so that no
  formatting verb (\<^verbatim>\<open>%q\<close>) has to be interpreted. The value \<^verbatim>\<open>nil\<close> is \<open>None\<close> of
  \<open>error option\<close>.
\<close>

datatype error =
    Ext string
  | Errorf string "fmtarg list"
  | Wrapf error string "fmtarg list"
and fmtarg = S string | E error

text \<open>A function either returns or panics (a failed type assertion, an index out of range).\<close>

datatype 'a outcome = Returned 'a | Panicked

text \<open>The values an \<^verbatim>\<open>interface{}\<close> decoded from JSON can hold.\<close>

datatype jvalue =
    JNull
  | JBool bool
  | JNumber int
  | JString string
  | JArray "jvalue list"
  | JObject "(string \<times> jvalue) list"

text \<open>An \<^verbatim>\<open>exec.Cmd\<close>: the program, its arguments and the environment given to it.\<close>

record cmd =
  cmd_path :: string
  cmd_args :: "string list"
  cmd_env :: "string list"

type_synonym FileMode = "32 word"

text \<open>
  What the program does to the outside is recorded as a list of events, in order:
  a process started and waited for, a rename, a file written, a tree removed.
\<close>

datatype event =
    Exec cmd
  | Renamed string string
  | Wrote string string FileMode
  | Removed string

text \<open>
  The machine outside the program: \<open>files\<close> is the set of paths for which \<^verbatim>\<open>os.Stat\<close>
  does not report a not-exist error, \<open>other\<close> is everything else (current directory,
  file contents, key rings, the network). The world is the machine with the events
  recorded so far; the machine's own operations never see the record of events.
\<close>

record 'x machine =
  files :: "string set"
  other :: 'x

record 'x world =
  machine :: "'x machine"
  events :: "event list"

section \<open>Package mason: descriptor and user configuration\<close>

text \<open>
  Modelled from the spec: the declarations of \<^verbatim>\<open>Metadata\<close> and of the user configuration
  are not among the sources. The fields are those the code reads and writes
  (\<^verbatim>\<open>meta.SignInfo.Program\<close>, \<^verbatim>\<open>meta.Options["keyring"]\<close>, \<^verbatim>\<open>config.User.Email\<close>,
  \<^verbatim>\<open>buildmetadata.WorkDir\<close>, ...), with the types the spec's data model gives them.
\<close>

record SignInfo_t =
  Program :: string
  Email :: string

record Metadata =
  Version :: string
  Package :: string
  Description :: string
  BuildTargets :: "string list"
  SignInfo :: SignInfo_t
  Options :: "string \<rightharpoonup> jvalue"
  WorkDir :: string
  Path :: string
  GitPath :: string

record UserInfo_t =
  user_Email :: string

record UserSigning_t =
  signing_Program :: string

record UserConfig =
  User :: UserInfo_t
  Signing :: UserSigning_t

text \<open>The zero value of \<^verbatim>\<open>Metadata\<close>, which a named result holds before any assignment.\<close>

definition Metadata_zero :: Metadata where
  "Metadata_zero =
     \<lparr>Version = [], Package = [], Description = [], BuildTargets = [],
      SignInfo = \<lparr>Program = [], Email = []\<rparr>, Options = Map.empty,
      WorkDir = [], Path = [], GitPath = []\<rparr>"

section \<open>Package pkg/gomason: descriptor\<close>

text \<open>
  Modelled from the spec: the declaration of \<^verbatim>\<open>Metadata\<close> of package \<^verbatim>\<open>gomason\<close> is not
  among the sources either. It is another type than the one of package \<^verbatim>\<open>mason\<close>, so
  the record is \<open>GMetadata\<close> and its fields \<^verbatim>\<open>Package\<close>, \<^verbatim>\<open>Version\<close>, \<^verbatim>\<open>Description\<close> are
  \<open>GPackage\<close>, \<open>GVersion\<close>, \<open>GDescription\<close>. \<^verbatim>\<open>Flags\<close> is a Go map that the code only ranges
  over: it is the list of its entries in the order the range visits them, an order
  that Go leaves open.
\<close>

record BuildTarget =
  Name :: string
  Cgo :: bool
  Flags :: "(string \<times> string) list"

record BuildExtra =
  Template :: string
  FileName :: string
  Executable :: bool

record BuildInfo_t =
  Targets :: "BuildTarget list"
  Extras :: "BuildExtra list"

record GMetadata =
  GVersion :: string
  GPackage :: string
  GDescription :: string
  BuildInfo :: BuildInfo_t

text \<open>The descriptor's fields that a template can name.\<close>

datatype field = FPackage | FVersion | FDescription

section \<open>The operating system and the functions of the package that are not in the sources\<close>

text \<open>
  Every operation of the operating system and of the Go library that the code calls is a
  parameter, a function on the machine that can fail, except \<^verbatim>\<open>os.Stat\<close>, which is read off
  \<open>files\<close> below. The functions of package \<^verbatim>\<open>mason\<close> that the code calls and
  whose bodies are not among the sources (\<^verbatim>\<open>GetUserConfig\<close>, \<^verbatim>\<open>CreateGoPath\<close>,
  \<^verbatim>\<open>ReadMetadata\<close>, \<^verbatim>\<open>Checkout\<close>, \<^verbatim>\<open>GitSSHUrlFromPackage\<close>) are parameters too.
  So are \<^verbatim>\<open>ReadMetadata\<close> and \<^verbatim>\<open>Checkout\<close> of package \<^verbatim>\<open>gomason\<close>.
  \<open>Environ\<close> is \<^verbatim>\<open>os.Environ()\<close>: the program never changes its own environment, so it
  is one list for the whole run. \<open>ReadFile\<close> and \<open>WriteFile\<close> are those of \<^verbatim>\<open>ioutil\<close>.
  \<open>Placeholder\<close> is the spelling, in a template, of the placeholder of each field, and
  \<open>Rejects\<close> the error with which the renderer refuses a template; the spec leaves both
  open.
\<close>

record 'x sys =
  Environ :: "string list"
  LookPath :: "string \<Rightarrow> 'x machine \<Rightarrow> error + string"
  Run :: "cmd \<Rightarrow> 'x machine \<Rightarrow> error option \<times> 'x machine"
  Getwd :: "'x machine \<Rightarrow> error + string"
  Chdir :: "string \<Rightarrow> 'x machine \<Rightarrow> error option \<times> 'x machine"
  TempDir :: "string \<Rightarrow> string \<Rightarrow> 'x machine \<Rightarrow> (error + string) \<times> 'x machine"
  Rename :: "string \<Rightarrow> string \<Rightarrow> 'x machine \<Rightarrow> error option \<times> 'x machine"
  GetUserConfig :: "'x machine \<Rightarrow> UserConfig \<times> error option"
  CreateGoPath :: "string \<Rightarrow> 'x machine \<Rightarrow> (error + string) \<times> 'x machine"
  ReadMetadata :: "string \<Rightarrow> 'x machine \<Rightarrow> error + Metadata"
  Checkout :: "string \<Rightarrow> string \<Rightarrow> string \<Rightarrow> bool \<Rightarrow> 'x machine \<Rightarrow> error option \<times> 'x machine"
  GitSSHUrlFromPackage :: "string \<Rightarrow> string"
  ReadFile :: "string \<Rightarrow> 'x machine \<Rightarrow> error + string"
  WriteFile :: "string \<Rightarrow> string \<Rightarrow> FileMode \<Rightarrow> 'x machine \<Rightarrow> error option \<times> 'x machine"
  gomason_ReadMetadata :: "string \<Rightarrow> 'x machine \<Rightarrow> error + GMetadata"
  gomason_Checkout :: "string \<Rightarrow> GMetadata \<Rightarrow> string \<Rightarrow> bool \<Rightarrow> 'x machine \<Rightarrow> error option \<times> 'x machine"
  Placeholder :: "field \<Rightarrow> string"
  Rejects :: "string \<Rightarrow> GMetadata \<Rightarrow> error option"
  RemoveAll :: "string \<Rightarrow> 'x machine \<Rightarrow> error option \<times> 'x machine"

text \<open>\<^verbatim>\<open>cmd.Run()\<close> and \<^verbatim>\<open>cmd.CombinedOutput()\<close>: the process is started and waited for; the
  output is only logged, so the model drops it.\<close>

definition os_Run :: "'x sys \<Rightarrow> cmd \<Rightarrow> 'x world \<Rightarrow> error option \<times> 'x world" where
  "os_Run sys c w =
     (case Run sys c (machine w) of
        (r, m') \<Rightarrow> (r, \<lparr>machine = m', events = events w @ [Exec c]\<rparr>))"

definition os_Rename :: "'x sys \<Rightarrow> string \<Rightarrow> string \<Rightarrow> 'x world \<Rightarrow> error option \<times> 'x world" where
  "os_Rename sys src dst w =
     (case Rename sys src dst (machine w) of
        (r, m') \<Rightarrow> (r, \<lparr>machine = m', events = events w @ [Renamed src dst]\<rparr>))"

definition os_WriteFile ::
  "'x sys \<Rightarrow> string \<Rightarrow> string \<Rightarrow> FileMode \<Rightarrow> 'x world \<Rightarrow> error option \<times> 'x world" where
  "os_WriteFile sys filename data perm w =
     (case WriteFile sys filename data perm (machine w) of
        (r, m') \<Rightarrow> (r, \<lparr>machine = m', events = events w @ [Wrote filename data perm]\<rparr>))"

text \<open>The operations that leave no event only change the machine.\<close>

definition lift_m :: "('x machine \<Rightarrow> 'r \<times> 'x machine) \<Rightarrow> 'x world \<Rightarrow> 'r \<times> 'x world" where
  "lift_m f w = (case f (machine w) of (r, m') \<Rightarrow> (r, w\<lparr>machine := m'\<rparr>))"

text \<open>\<^verbatim>\<open>os.IsNotExist(err)\<close> for the error of \<^verbatim>\<open>os.Stat(path)\<close>.\<close>

definition stat_IsNotExist :: "'x world \<Rightarrow> string \<Rightarrow> bool" where
  "stat_IsNotExist w path = (path \<notin> files (machine w))"

text \<open>\<^verbatim>\<open>os.RemoveAll(path)\<close> as the code calls it, in a \<^verbatim>\<open>defer\<close>: the call is made, what it
  removes is the machine's business, and its error is dropped.\<close>

definition os_RemoveAll :: "'x sys \<Rightarrow> string \<Rightarrow> 'x world \<Rightarrow> 'x world" where
  "os_RemoveAll sys path w =
     (case RemoveAll sys path (machine w) of
        (r, m') \<Rightarrow> \<lparr>machine = m', events = events w @ [Removed path]\<rparr>)"

text \<open>\<open>under path f\<close>: \<open>f\<close> is \<open>path\<close> or lies below it.\<close>

definition under :: "string \<Rightarrow> string \<Rightarrow> bool" where
  "under path f = (f = path \<or> prefix (path @ ''/'') f)"

section \<open>mason/signing.go\<close>

definition defaultSigningProgram :: string where
  "defaultSigningProgram = ''gpg''"

text \<open>
  The arguments of the signer or verifier. With \<^verbatim>\<open>"keyring"\<close> among the options the code
  evaluates \<^verbatim>\<open>meta.Options["trustdb"].(string)\<close> and then \<^verbatim>\<open>keyring.(string)\<close>; either
  assertion panics on a value that is not a string (a missing key gives \<^verbatim>\<open>nil\<close>). \<open>None\<close>
  is the panic.
\<close>

definition gpg_args :: "Metadata \<Rightarrow> string list \<Rightarrow> string list option" where
  "gpg_args meta tail =
     (case Options meta ''keyring'' of
        Some keyring \<Rightarrow>
          (case Options meta ''trustdb'' of
             Some (JString trustdb) \<Rightarrow>
               (case keyring of
                  JString k \<Rightarrow>
                    Some ([''--trustdb'', trustdb, ''--no-default-keyring'', ''--keyring'', k] @ tail)
                | _ \<Rightarrow> None)
           | _ \<Rightarrow> None)
      | None \<Rightarrow> Some tail)"

definition SignGPG ::
  "'x sys \<Rightarrow> string \<Rightarrow> string \<Rightarrow> Metadata \<Rightarrow> 'x world \<Rightarrow> error option outcome \<times> 'x world" where
  "SignGPG sys binary signingEntity meta w =
     (case LookPath sys ''gpg'' (machine w) of
        Inl err \<Rightarrow>
          (Returned (Some (Wrapf err ''can't find signing program 'gpg' in path.  Is it installed?'' [])), w)
      | Inr shellCmd \<Rightarrow>
          (case gpg_args meta [''-bau'', signingEntity, binary] of
             None \<Rightarrow> (Panicked, w)
           | Some args \<Rightarrow>
               (case os_Run sys \<lparr>cmd_path = shellCmd, cmd_args = args, cmd_env = Environ sys\<rparr> w of
                  (Some err, w') \<Rightarrow> (Returned (Some (Wrapf err ''failed to run %q'' [S shellCmd])), w')
                | (None, w') \<Rightarrow> (Returned None, w'))))"

definition VerifyGPG ::
  "'x sys \<Rightarrow> string \<Rightarrow> Metadata \<Rightarrow> 'x world \<Rightarrow> (bool \<times> error option) outcome \<times> 'x world" where
  "VerifyGPG sys binary meta w =
     (let sigFile = binary @ ''.asc'' in
      case LookPath sys ''gpg'' (machine w) of
        Inl err \<Rightarrow>
          (Returned (False, Some (Wrapf err ''can't find signing program 'gpg' in path.  Is it installed?'' [])), w)
      | Inr shellCmd \<Rightarrow>
          (case gpg_args meta [''--verify'', sigFile] of
             None \<Rightarrow> (Panicked, w)
           | Some args \<Rightarrow>
               (case os_Run sys \<lparr>cmd_path = shellCmd, cmd_args = args, cmd_env = Environ sys\<rparr> w of
                  (Some err, w') \<Rightarrow> (Returned (False, Some err), w')
                | (None, w') \<Rightarrow> (Returned (True, None), w'))))"

text \<open>The values of the local variables \<^verbatim>\<open>signProg\<close> and \<^verbatim>\<open>signEntity\<close> of \<^verbatim>\<open>SignBinary\<close>
  when the overrides of the user configuration have been applied (line 41).\<close>

definition signProg :: "Metadata \<Rightarrow> UserConfig \<Rightarrow> string" where
  "signProg meta config =
     (let signInfo = SignInfo meta;
          p = (if Program signInfo = [] then defaultSigningProgram else Program signInfo)
      in if signing_Program (Signing config) \<noteq> [] then signing_Program (Signing config) else p)"

definition signEntity :: "Metadata \<Rightarrow> UserConfig \<Rightarrow> string" where
  "signEntity meta config =
     (let signInfo = SignInfo meta;
          e = Email signInfo
      in if user_Email (User config) \<noteq> [] then user_Email (User config) else e)"

definition no_entity_error :: error where
  "no_entity_error =
     Errorf ''Cannot sign without a signing entity (email).\<newline>\<newline>Set 'signing' section in metadata.json, or create ~/.gomason with the appropriate content.\<newline>\<newline>See https://github.com/nikogura/gomason#config-reference for details.\<newline>\<newline>'' []"

text \<open>
  \<^verbatim>\<open>SignBinary\<close>. The error of \<^verbatim>\<open>GetUserConfig\<close> is wrapped and stored in \<^verbatim>\<open>err\<close>; every
  path to a \<^verbatim>\<open>return\<close> assigns \<^verbatim>\<open>err\<close> again before it is read. The \<^verbatim>\<open>switch\<close> has the
  \<^verbatim>\<open>default\<close> case only. When \<^verbatim>\<open>SignGPG\<close> panics, so does \<^verbatim>\<open>SignBinary\<close>.
\<close>

definition SignBinary ::
  "'x sys \<Rightarrow> Metadata \<Rightarrow> string \<Rightarrow> bool \<Rightarrow> 'x world \<Rightarrow> error option outcome \<times> 'x world" where
  "SignBinary sys meta binary verbose w =
     (case GetUserConfig sys (machine w) of
        (config, err0) \<Rightarrow>
          (let err = (case err0 of
                        Some e \<Rightarrow> Some (Wrapf e ''failed to get per-user config from ~/.gomason'' [])
                      | None \<Rightarrow> None)
           in if signEntity meta config = [] then (Returned (Some no_entity_error), w)
              else (case SignGPG sys binary (signEntity meta config) meta w of
                      (Returned (Some e), w') \<Rightarrow>
                        (Returned (Some (Wrapf e ''failed to run %q'' [S (signProg meta config)])), w')
                    | (Returned None, w') \<Rightarrow> (Returned None, w')
                    | (Panicked, w') \<Rightarrow> (Panicked, w'))))"

definition VerifyBinary ::
  "'x sys \<Rightarrow> string \<Rightarrow> Metadata \<Rightarrow> 'x world \<Rightarrow> (bool \<times> error option) outcome \<times> 'x world" where
  "VerifyBinary sys binary meta w =
     (let signInfo = SignInfo meta;
          prog = (if Program signInfo = [] then defaultSigningProgram else Program signInfo)
      in case VerifyGPG sys binary meta w of
           (Returned (ok, Some e), w') \<Rightarrow> (Returned (ok, Some (Wrapf e ''failed to run %q'' [S prog])), w')
         | (Returned (ok, None), w') \<Rightarrow> (Returned (ok, None), w')
         | (Panicked, w') \<Rightarrow> (Panicked, w'))"

section \<open>Strings\<close>

text \<open>\<^verbatim>\<open>strings.Split(s, "/")\<close> with a separator of one character: the pieces between the
  separators, one piece more than there are separators (the empty string gives one
  empty piece). \<^verbatim>\<open>strings.Join\<close> puts the separator between the elements.\<close>

fun strings_Split :: "string \<Rightarrow> char \<Rightarrow> string list" where
  "strings_Split [] c = [[]]"
| "strings_Split (x # xs) c =
     (if x = c then [] # strings_Split xs c
      else (case strings_Split xs c of
              y # ys \<Rightarrow> (x # y) # ys
            | [] \<Rightarrow> [[x]]))"

fun strings_Join :: "string list \<Rightarrow> string \<Rightarrow> string" where
  "strings_Join [] sep = []"
| "strings_Join [x] sep = x"
| "strings_Join (x # y # zs) sep = x @ sep @ strings_Join (y # zs) sep"

section \<open>mason/testing.go and the \<^verbatim>\<open>Build\<close> of package mason\<close>

definition GOPATH_env :: "'x sys \<Rightarrow> string \<Rightarrow> string list" where
  "GOPATH_env sys gopath = Environ sys @ [''GOPATH='' @ gopath]"

definition GovendorInstall :: "'x sys \<Rightarrow> string \<Rightarrow> bool \<Rightarrow> 'x world \<Rightarrow> error option \<times> 'x world" where
  "GovendorInstall sys gopath verbose w =
     os_Run sys \<lparr>cmd_path = ''go'', cmd_args = [''get'', ''github.com/kardianos/govendor''],
                 cmd_env = GOPATH_env sys gopath\<rparr> w"

definition GovendorSync ::
  "'x sys \<Rightarrow> string \<Rightarrow> string \<Rightarrow> bool \<Rightarrow> 'x world \<Rightarrow> error option \<times> 'x world" where
  "GovendorSync sys gopath gomodule verbose w =
     (let wd = gopath @ ''/src/'' @ gomodule in
      case lift_m (Chdir sys wd) w of
        (Some err, w1) \<Rightarrow> (Some err, w1)
      | (None, w1) \<Rightarrow>
          (let govendor = gopath @ ''/bin/govendor'';
               c = \<lparr>cmd_path = govendor, cmd_args = [''sync''], cmd_env = GOPATH_env sys gopath\<rparr>
           in if verbose then
                (case Getwd sys (machine w1) of
                   Inl err \<Rightarrow> (Some (Wrapf err ''failed to get working directory'' []), w1)
                 | Inr cwd \<Rightarrow> os_Run sys c w1)
              else os_Run sys c w1))"

definition GoTest ::
  "'x sys \<Rightarrow> string \<Rightarrow> string \<Rightarrow> bool \<Rightarrow> 'x world \<Rightarrow> error option \<times> 'x world" where
  "GoTest sys gopath gomodule verbose w =
     (let wd = gopath @ ''/src/'' @ gomodule in
      case lift_m (Chdir sys wd) w of
        (Some err, w1) \<Rightarrow> (Some err, w1)
      | (None, w1) \<Rightarrow>
          os_Run sys \<lparr>cmd_path = ''go'', cmd_args = [''test'', ''-v'', ''./...''],
                      cmd_env = GOPATH_env sys gopath\<rparr> w1)"

text \<open>\<^verbatim>\<open>GoxInstall\<close> is the same function in both packages.\<close>

definition GoxInstall :: "'x sys \<Rightarrow> string \<Rightarrow> bool \<Rightarrow> 'x world \<Rightarrow> error option \<times> 'x world" where
  "GoxInstall sys gopath verbose w =
     (case LookPath sys ''go'' (machine w) of
        Inl err \<Rightarrow> (Some (Wrapf err ''Failed to find go binary'' []), w)
      | Inr gocommand \<Rightarrow>
          os_Run sys \<lparr>cmd_path = gocommand, cmd_args = [''get'', ''github.com/mitchellh/gox''],
                      cmd_env = GOPATH_env sys gopath\<rparr> w)"

text \<open>\<^verbatim>\<open>Build\<close> of package mason (one compiler run for all targets); the one of package
  gomason is \<open>Build\<close> below.\<close>

definition mason_Build ::
  "'x sys \<Rightarrow> string \<Rightarrow> string \<Rightarrow> string \<Rightarrow> bool \<Rightarrow> 'x world \<Rightarrow> error option \<times> 'x world" where
  "mason_Build sys gopath gomodule branch verbose w =
     (case (if stat_IsNotExist w (gopath @ ''/go/bin/gox'')
            then (case GoxInstall sys gopath verbose w of
                    (Some err, w1) \<Rightarrow> (Some (Wrapf err ''Failed to install gox'' []), w1)
                  | (None, w1) \<Rightarrow> (None, w1))
            else (None, w)) of
        (Some err, w1) \<Rightarrow> (Some err, w1)
      | (None, w1) \<Rightarrow>
      (case (if stat_IsNotExist w1 (gopath @ ''/'' @ gomodule @ ''/metadata.json'')
             then (case lift_m (Checkout sys gopath gomodule branch verbose) w1 of
                     (Some err, w2) \<Rightarrow>
                       (Some (Wrapf err ''Failed to checkout module: %s branch: %s '' [S gomodule, S branch]), w2)
                   | (None, w2) \<Rightarrow> (None, w2))
             else (None, w1)) of
        (Some err, w2) \<Rightarrow> (Some err, w2)
      | (None, w2) \<Rightarrow>
      (let wd = gopath @ ''/src/'' @ gomodule in
       case lift_m (Chdir sys wd) w2 of
         (Some err, w3) \<Rightarrow> (Some err, w3)
       | (None, w3) \<Rightarrow>
       (let gox = gopath @ ''/bin/gox'';
            metadatapath = gopath @ ''/src/'' @ gomodule @ ''/metadata.json''
        in case ReadMetadata sys metadatapath (machine w3) of
             Inl err \<Rightarrow> (Some (Wrapf err ''Failed to read metadata.json from checked out code'' []), w3)
           | Inr md \<Rightarrow>
               (let targets = BuildTargets md;
                    targetstring = strings_Join targets '' '';
                    args = gox @ '' -osarch='' @ [CHR 0x22] @ targetstring @ [CHR 0x22]
                in os_Run sys \<lparr>cmd_path = ''bash'', cmd_args = [''-c'', args],
                               cmd_env = GOPATH_env sys gopath\<rparr> w3)))))"

text \<open>
  The loop of \<^verbatim>\<open>WholeShebang\<close> over the build targets (lines 199 to 220), from the world
  \<open>w\<close> on. \<^verbatim>\<open>archparts[1]\<close> panics when the target has no \<^verbatim>\<open>/\<close>. When the loop ends,
  \<^verbatim>\<open>err\<close> is \<^verbatim>\<open>nil\<close>: it was last assigned by a \<^verbatim>\<open>Rename\<close> that succeeded, or by \<^verbatim>\<open>GoTest\<close>.
\<close>

definition binary_name :: "string \<Rightarrow> string \<Rightarrow> string \<Rightarrow> string" where
  "binary_name binaryPrefix osname archname = binaryPrefix @ ''_'' @ osname @ ''_'' @ archname"

fun WholeShebang_collect ::
  "'x sys \<Rightarrow> string \<Rightarrow> string \<Rightarrow> string \<Rightarrow> string \<Rightarrow> string list \<Rightarrow> 'x world
     \<Rightarrow> error option outcome \<times> 'x world" where
  "WholeShebang_collect sys gopath pkg cwd binaryPrefix [] w = (Returned None, w)"
| "WholeShebang_collect sys gopath pkg cwd binaryPrefix (arch # rest) w =
     (let archparts = strings_Split arch CHR ''/'' in
      if length archparts < 2 then (Panicked, w)
      else
        (let osname = archparts ! 0;
             archname = archparts ! 1;
             workdir = gopath @ ''/src/'' @ pkg;
             binary = workdir @ ''/'' @ binary_name binaryPrefix osname archname
         in if stat_IsNotExist w binary
            then (Returned (Some (Errorf ''Gox failed to build binary: %s\<newline>'' [S binary])), w)
            else
              (let destinationPath = cwd @ ''/'' @ binary_name binaryPrefix osname archname in
               case os_Rename sys binary destinationPath w of
                 (Some err, w') \<Rightarrow>
                   (Returned (Some (Wrapf err ''Failed to collect binary %s\<newline>'' [S binary])), w')
               | (None, w') \<Rightarrow> WholeShebang_collect sys gopath pkg cwd binaryPrefix rest w')))"

text \<open>
  \<^verbatim>\<open>WholeShebang\<close> from line 146 on, with the working directory \<^verbatim>\<open>cwd\<close> and the
  workspace \<^verbatim>\<open>actualWorkDir\<close> settled. The result of \<^verbatim>\<open>Build\<close> is not assigned (line 194);
  \<^verbatim>\<open>sign\<close> and \<^verbatim>\<open>publish\<close> only log.
\<close>

definition WholeShebang_rest ::
  "'x sys \<Rightarrow> string \<Rightarrow> string \<Rightarrow> string \<Rightarrow> bool \<Rightarrow> bool \<Rightarrow> bool \<Rightarrow> bool \<Rightarrow> 'x world
     \<Rightarrow> (Metadata \<times> error option) outcome \<times> 'x world" where
  "WholeShebang_rest sys cwd actualWorkDir branch build sign publish verbose w =
     (let buildmetadata = Metadata_zero\<lparr>WorkDir := actualWorkDir\<rparr> in
      case lift_m (CreateGoPath sys actualWorkDir) w of
        (Inl err, w1) \<Rightarrow> (Returned (buildmetadata, Some err), w1)
      | (Inr gopath, w1) \<Rightarrow>
      (let buildmetadata = buildmetadata\<lparr>Path := gopath\<rparr> in
       case GovendorInstall sys gopath verbose w1 of
         (Some err, w2) \<Rightarrow> (Returned (buildmetadata, Some err), w2)
       | (None, w2) \<Rightarrow>
       (case ReadMetadata sys ''metadata.json'' (machine w2) of
          Inl err \<Rightarrow>
            (Returned (buildmetadata,
               Some (Wrapf err ''couldn't read package information from metadata.json.'' [])), w2)
        | Inr commandmetadata \<Rightarrow>
        (let buildmetadata = buildmetadata\<lparr>Package := Package commandmetadata,
                                             Version := Version commandmetadata\<rparr>;
             giturl = GitSSHUrlFromPackage sys (Package commandmetadata);
             buildmetadata = buildmetadata\<lparr>GitPath := giturl\<rparr>
         in case lift_m (Checkout sys gopath (Package commandmetadata) branch verbose) w2 of
              (Some err, w3) \<Rightarrow>
                (Returned (buildmetadata,
                   Some (Wrapf err ''failed to checkout package %s at branch %s: %s''
                           [S (Package commandmetadata), S branch, E err])), w3)
            | (None, w3) \<Rightarrow>
            (case GovendorSync sys gopath (Package commandmetadata) verbose w3 of
               (Some err, w4) \<Rightarrow>
                 (Returned (buildmetadata, Some (Wrapf err ''error running govendor sync'' [])), w4)
             | (None, w4) \<Rightarrow>
             (case GoTest sys gopath (Package commandmetadata) verbose w4 of
                (Some err, w5) \<Rightarrow>
                  (Returned (buildmetadata, Some (Wrapf err ''error running go test'' [])), w5)
              | (None, w5) \<Rightarrow>
                  if build then
                    (case mason_Build sys gopath (Package commandmetadata) branch verbose w5 of
                       (discarded, w6) \<Rightarrow>
                         (let parts = strings_Split (Package commandmetadata) CHR ''/'';
                              binaryPrefix = last parts
                          in case WholeShebang_collect sys gopath (Package commandmetadata) cwd
                                    binaryPrefix (BuildTargets commandmetadata) w6 of
                               (Returned err, w7) \<Rightarrow> (Returned (buildmetadata, err), w7)
                             | (Panicked, w7) \<Rightarrow> (Panicked, w7)))
                  else (Returned (buildmetadata, None), w5)))))))"

text \<open>
  \<^verbatim>\<open>WholeShebang\<close>. With an empty \<^verbatim>\<open>workDir\<close> the error of \<^verbatim>\<open>ioutil.TempDir\<close> is wrapped
  but the function goes on, with the empty path that \<^verbatim>\<open>TempDir\<close> returns beside an error,
  and \<^verbatim>\<open>err\<close> is assigned again by \<^verbatim>\<open>CreateGoPath\<close>. The deferred
  \<^verbatim>\<open>os.RemoveAll(actualWorkDir)\<close> runs when the function returns or panics.
\<close>

definition WholeShebang ::
  "'x sys \<Rightarrow> string \<Rightarrow> string \<Rightarrow> bool \<Rightarrow> bool \<Rightarrow> bool \<Rightarrow> bool \<Rightarrow> 'x world
     \<Rightarrow> (Metadata \<times> error option) outcome \<times> 'x world" where
  "WholeShebang sys workDir branch build sign publish verbose w =
     (case Getwd sys (machine w) of
        Inl err \<Rightarrow>
          (Returned (Metadata_zero, Some (Wrapf err ''Failed to get current working directory.'' [])), w)
      | Inr cwd \<Rightarrow>
          if workDir = [] then
            (case lift_m (TempDir sys [] ''gomason'') w of
               (r, w1) \<Rightarrow>
                 (let actualWorkDir = (case r of Inl err \<Rightarrow> [] | Inr d \<Rightarrow> d) in
                  case WholeShebang_rest sys cwd actualWorkDir branch build sign publish verbose w1 of
                    (out, w2) \<Rightarrow> (out, os_RemoveAll sys actualWorkDir w2)))
          else WholeShebang_rest sys cwd workDir branch build sign publish verbose w)"

section \<open>pkg/gomason/building.go\<close>

text \<open>
  Modelled from the spec: \<^verbatim>\<open>ParseTemplateForMetadata\<close> is called by \<^verbatim>\<open>BuildExtras\<close> and is
  not among the sources. The spec: the extras generator "performs a textual substitution
  pass injecting the PackageDescriptor's fields (package, version, description) into
  named placeholders". The pass goes over the text once, from left to right: where the
  placeholder of a field is spelled (package first, then version, then description),
  the value of the field is put in its place and the pass goes on behind the
  placeholder; any other character is copied. The code checks an error of the renderer
  (line 180) of which the spec says nothing: which templates the renderer refuses, and
  with what error, is the parameter \<open>Rejects\<close>.
\<close>

datatype piece = Lit char | Hole field

definition placeholder_at :: "(field \<Rightarrow> string) \<Rightarrow> string \<Rightarrow> field option" where
  "placeholder_at ph text =
     find (\<lambda>f. ph f \<noteq> [] \<and> prefix (ph f) text) [FPackage, FVersion, FDescription]"

function pieces :: "(field \<Rightarrow> string) \<Rightarrow> string \<Rightarrow> piece list" where
  "pieces ph [] = []"
| "pieces ph (c # cs) =
     (case placeholder_at ph (c # cs) of
        Some f \<Rightarrow> Hole f # pieces ph (drop (length (ph f)) (c # cs))
      | None \<Rightarrow> Lit c # pieces ph cs)"
  by pat_completeness auto
termination
  by (relation "measure (\<lambda>(ph, text). length text)")
     (auto simp: placeholder_at_def split: if_splits)

fun field_value :: "GMetadata \<Rightarrow> field \<Rightarrow> string" where
  "field_value metadata FPackage = GPackage metadata"
| "field_value metadata FVersion = GVersion metadata"
| "field_value metadata FDescription = GDescription metadata"

fun fill :: "GMetadata \<Rightarrow> piece \<Rightarrow> string" where
  "fill metadata (Lit c) = [c]"
| "fill metadata (Hole f) = field_value metadata f"

text \<open>Modelled from the spec: \<^verbatim>\<open>ParseTemplateForMetadata\<close>, whose body is not among the sources,
  as the substitution pass above, with the placeholders spelled as \<open>Placeholder\<close> says, on
  every template that the renderer does not refuse.\<close>

definition substitute :: "(field \<Rightarrow> string) \<Rightarrow> string \<Rightarrow> GMetadata \<Rightarrow> string" where
  "substitute ph templateText metadata = concat (map (fill metadata) (pieces ph templateText))"

definition ParseTemplateForMetadata :: "'x sys \<Rightarrow> string \<Rightarrow> GMetadata \<Rightarrow> error + string" where
  "ParseTemplateForMetadata sys templateText metadata =
     (case Rejects sys templateText metadata of
        Some err \<Rightarrow> Inl err
      | None \<Rightarrow> Inr (substitute (Placeholder sys) templateText metadata))"

text \<open>The modes \<^verbatim>\<open>0755\<close> and \<^verbatim>\<open>0644\<close> (octal), and the three execute bits \<^verbatim>\<open>0111\<close>.\<close>

definition mode_0755 :: FileMode where
  "mode_0755 = 7 * 64 + 5 * 8 + 5"

definition mode_0644 :: FileMode where
  "mode_0644 = 6 * 64 + 4 * 8 + 4"

definition mode_0111 :: FileMode where
  "mode_0111 = 1 * 64 + 1 * 8 + 1"

text \<open>The loop of \<^verbatim>\<open>BuildExtras\<close> over the extras, and \<^verbatim>\<open>BuildExtras\<close>. The \<^verbatim>\<open>err\<close> declared
  in the loop body hides the result \<^verbatim>\<open>err\<close>, which is \<^verbatim>\<open>nil\<close> when the loop ends.\<close>

fun BuildExtras_loop ::
  "'x sys \<Rightarrow> GMetadata \<Rightarrow> string \<Rightarrow> bool \<Rightarrow> BuildExtra list \<Rightarrow> 'x world \<Rightarrow> error option \<times> 'x world" where
  "BuildExtras_loop sys meta workdir verbose [] w = (None, w)"
| "BuildExtras_loop sys meta workdir verbose (extra # rest) w =
     (let templateName = workdir @ ''/'' @ Template extra;
          outputFileName = workdir @ ''/'' @ FileName extra;
          executable = Executable extra;
          mode = (if executable then mode_0755 else mode_0644)
      in case ReadFile sys templateName (machine w) of
           Inl err \<Rightarrow> (Some (Wrapf err ''failed to read template file %s'' [S templateName]), w)
         | Inr tmplBytes \<Rightarrow>
             (case ParseTemplateForMetadata sys tmplBytes meta of
                Inl err \<Rightarrow> (Some (Wrapf err ''failed to inject metadata into template text'' []), w)
              | Inr output \<Rightarrow>
                  (case os_WriteFile sys outputFileName output mode w of
                     (Some err, w') \<Rightarrow>
                       (Some (Wrapf err ''failed to write file %s'' [S outputFileName]), w')
                   | (None, w') \<Rightarrow> BuildExtras_loop sys meta workdir verbose rest w')))"

definition BuildExtras ::
  "'x sys \<Rightarrow> GMetadata \<Rightarrow> string \<Rightarrow> bool \<Rightarrow> 'x world \<Rightarrow> error option \<times> 'x world" where
  "BuildExtras sys meta workdir verbose w =
     BuildExtras_loop sys meta workdir verbose (Extras (BuildInfo meta)) w"

text \<open>
  The command that the loop of \<^verbatim>\<open>Build\<close> runs for one target (lines 97 to 118): the
  environment is \<^verbatim>\<open>os.Environ()\<close>, then \<^verbatim>\<open>GOPATH=\<close>, then one entry for each flag; the
  arguments are those of \<^verbatim>\<open>sh -c\<close>, with \<^verbatim>\<open>-cgo\<close> in the command line of gox.
\<close>

definition target_env :: "'x sys \<Rightarrow> string \<Rightarrow> BuildTarget \<Rightarrow> string list" where
  "target_env sys gopath target =
     foldl (\<lambda>runenv (k, v). runenv @ [k @ ''='' @ v])
           (Environ sys @ [''GOPATH='' @ gopath]) (Flags target)"

definition target_cmd :: "'x sys \<Rightarrow> string \<Rightarrow> string \<Rightarrow> BuildTarget \<Rightarrow> cmd" where
  "target_cmd sys gopath gox target =
     (let runenv = target_env sys gopath target;
          cgo = (if Cgo target then '' -cgo'' else []);
          args = gox @ cgo @ '' -osarch='' @ [CHR 0x22] @ Name target @ [CHR 0x22] @ '' ./...''
      in \<lparr>cmd_path = ''sh'', cmd_args = [''-c'', args], cmd_env = runenv\<rparr>)"

fun Build_targets ::
  "'x sys \<Rightarrow> string \<Rightarrow> string \<Rightarrow> BuildTarget list \<Rightarrow> 'x world \<Rightarrow> error option \<times> 'x world" where
  "Build_targets sys gopath gox [] w = (None, w)"
| "Build_targets sys gopath gox (target # rest) w =
     (case os_Run sys (target_cmd sys gopath gox target) w of
        (Some err, w') \<Rightarrow> (Some err, w')
      | (None, w') \<Rightarrow> Build_targets sys gopath gox rest w')"

definition Build ::
  "'x sys \<Rightarrow> string \<Rightarrow> GMetadata \<Rightarrow> string \<Rightarrow> bool \<Rightarrow> 'x world \<Rightarrow> error option \<times> 'x world" where
  "Build sys gopath meta branch verbose w =
     (case (if stat_IsNotExist w (gopath @ ''/go/bin/gox'')
            then (case GoxInstall sys gopath verbose w of
                    (Some err, w1) \<Rightarrow> (Some (Wrapf err ''Failed to install gox'' []), w1)
                  | (None, w1) \<Rightarrow> (None, w1))
            else (None, w)) of
        (Some err, w1) \<Rightarrow> (Some err, w1)
      | (None, w1) \<Rightarrow>
      (case (if stat_IsNotExist w1 (gopath @ ''/'' @ GPackage meta @ ''/metadata.json'')
             then (case lift_m (gomason_Checkout sys gopath meta branch verbose) w1 of
                     (Some err, w2) \<Rightarrow>
                       (Some (Wrapf err ''Failed to checkout module: %s branch: %s ''
                                [S (GPackage meta), S branch]), w2)
                   | (None, w2) \<Rightarrow> (None, w2))
             else (None, w1)) of
        (Some err, w2) \<Rightarrow> (Some err, w2)
      | (None, w2) \<Rightarrow>
      (let wd = gopath @ ''/src/'' @ GPackage meta in
       case lift_m (Chdir sys wd) w2 of
         (Some err, w3) \<Rightarrow> (Some err, w3)
       | (None, w3) \<Rightarrow>
       (let gox = gopath @ ''/bin/gox'';
            metadatapath = gopath @ ''/src/'' @ GPackage meta @ ''/metadata.json''
        in case gomason_ReadMetadata sys metadatapath (machine w3) of
             Inl err \<Rightarrow> (Some (Wrapf err ''Failed to read metadata.json from checked out code'' []), w3)
           | Inr md \<Rightarrow>
               (case Build_targets sys gopath gox (Targets (BuildInfo md)) w3 of
                  (Some err, w4) \<Rightarrow> (Some err, w4)
                | (None, w4) \<Rightarrow>
                    (case BuildExtras sys md wd verbose w4 of
                       (Some err, w5) \<Rightarrow> (Some (Wrapf err ''Failed to build extras'' []), w5)
                     | (None, w5) \<Rightarrow> (None, w5)))))))"

section \<open>Names and predicates of the statements\<close>

text \<open>
  The path at which the loop of \<^verbatim>\<open>WholeShebang\<close> expects the binary of a target and the
  path it moves it to, as the loop computes them; a target is well formed when
  \<^verbatim>\<open>archparts[1]\<close> exists. \<open>preserved_by sys R I\<close> says that no operation of the machine that
  \<^verbatim>\<open>WholeShebang\<close> calls breaks the property \<open>I\<close> of the world, where the renames are
  those of a source with \<open>R\<close>. \<open>keeps_path sys p\<close> says that the machine's operations leave
  the path \<open>p\<close> in place, a rename unless it moves \<open>p\<close> itself or a directory above it.
  \<open>gopath_inside sys\<close> says that the GOPATH that \<^verbatim>\<open>CreateGoPath\<close> makes lies in the workspace
  it is given. \<open>distinct_placeholders ph\<close> says that no placeholder is empty and that none
  begins like another or like the end of another, so that the text of one is never read
  as part of another.
\<close>

definition binary_src :: "string \<Rightarrow> string \<Rightarrow> string \<Rightarrow> string \<Rightarrow> string" where
  "binary_src gopath pkg binaryPrefix arch =
     gopath @ ''/src/'' @ pkg @ ''/''
       @ binary_name binaryPrefix (strings_Split arch CHR ''/'' ! 0) (strings_Split arch CHR ''/'' ! 1)"

definition binary_dst :: "string \<Rightarrow> string \<Rightarrow> string \<Rightarrow> string" where
  "binary_dst cwd binaryPrefix arch =
     cwd @ ''/''
       @ binary_name binaryPrefix (strings_Split arch CHR ''/'' ! 0) (strings_Split arch CHR ''/'' ! 1)"

definition wellformed_target :: "string \<Rightarrow> bool" where
  "wellformed_target arch = (2 \<le> length (strings_Split arch CHR ''/''))"




definition distinct_placeholders :: "(field \<Rightarrow> string) \<Rightarrow> bool" where
  "distinct_placeholders ph \<longleftrightarrow>
     (\<forall>f. ph f \<noteq> [])
     \<and> (\<forall>f g. f \<noteq> g \<longrightarrow>
           (\<forall>k<length (ph g). \<not> prefix (drop k (ph g)) (ph f) \<and> \<not> prefix (ph f) (drop k (ph g))))"

section \<open>Concrete machines and descriptors\<close>

text \<open>A machine on which every tool is installed and every operation succeeds, except a
  process that finds \<^verbatim>\<open>BROKEN=1\<close> in its environment; variants of it; a few descriptors
  and worlds.\<close>

definition cfg_empty :: UserConfig where
  "cfg_empty = \<lparr>User = \<lparr>user_Email = []\<rparr>, Signing = \<lparr>signing_Program = []\<rparr>\<rparr>"

definition meta_widget :: Metadata where
  "meta_widget = Metadata_zero\<lparr>Package := ''acme/widget'', Version := ''1.2.3'',
                                BuildTargets := [''linux/amd64'']\<rparr>"

definition extra_script :: BuildExtra where
  "extra_script = \<lparr>Template = ''run.sh.tmpl'', FileName = ''run.sh'', Executable = True\<rparr>"

definition extra_readme :: BuildExtra where
  "extra_readme = \<lparr>Template = ''README.tmpl'', FileName = ''README'', Executable = False\<rparr>"

definition gmeta_widget :: GMetadata where
  "gmeta_widget = \<lparr>GVersion = ''1.2.3'', GPackage = ''acme/widget'', GDescription = ''A widget'',
                   BuildInfo = \<lparr>Targets = [], Extras = [extra_script, extra_readme]\<rparr>\<rparr>"

definition go_placeholder :: "field \<Rightarrow> string" where
  "go_placeholder f =
     (case f of FPackage \<Rightarrow> ''{{.Package}}'' | FVersion \<Rightarrow> ''{{.Version}}''
      | FDescription \<Rightarrow> ''{{.Description}}'')"

definition sys_ok :: "unit sys" where
  "sys_ok =
     \<lparr>Environ = [''HOME=/home/op''],
      LookPath = (\<lambda>name m. Inr (''/usr/bin/'' @ name)),
      Run = (\<lambda>c m. (if ''BROKEN=1'' \<in> set (cmd_env c) then Some (Ext ''exit status 1'') else None, m)),
      Getwd = (\<lambda>m. Inr ''/home/op/proj''),
      Chdir = (\<lambda>d m. (None, m)),
      TempDir = (\<lambda>d p m. (Inr ''/tmp/gomason1'', m\<lparr>files := insert ''/tmp/gomason1'' (files m)\<rparr>)),
      Rename = (\<lambda>src dst m. (None, m\<lparr>files := insert dst (files m - {src})\<rparr>)),
      GetUserConfig = (\<lambda>m. (cfg_empty, None)),
      CreateGoPath = (\<lambda>d m. (Inr (d @ ''/go''), m\<lparr>files := insert (d @ ''/go'') (files m)\<rparr>)),
      ReadMetadata = (\<lambda>p m. Inr meta_widget),
      Checkout = (\<lambda>g p b v m. (None, m)),
      GitSSHUrlFromPackage = (\<lambda>p. ''git@'' @ p),
      ReadFile = (\<lambda>p m. Inr ''name={{.Package}} v{{.Version}}''),
      WriteFile = (\<lambda>p d perm m. (None, m\<lparr>files := insert p (files m)\<rparr>)),
      gomason_ReadMetadata = (\<lambda>p m. Inr gmeta_widget),
      gomason_Checkout = (\<lambda>g md b v m. (None, m)),
      Placeholder = go_placeholder,
      Rejects = (\<lambda>t md. None),
      RemoveAll = (\<lambda>p m. (None, m\<lparr>files := {f \<in> files m. \<not> under p f}\<rparr>))\<rparr>"

definition w0 :: "unit world" where
  "w0 = \<lparr>machine = \<lparr>files = {}, other = ()\<rparr>, events = []\<rparr>"

definition cfg_op :: UserConfig where
  "cfg_op = \<lparr>User = \<lparr>user_Email = ''op@example.org''\<rparr>, Signing = \<lparr>signing_Program = []\<rparr>\<rparr>"

definition meta_signed :: Metadata where
  "meta_signed = Metadata_zero\<lparr>SignInfo := \<lparr>Program = [], Email = ''release@example.org''\<rparr>\<rparr>"

definition meta_keyring :: Metadata where
  "meta_keyring = meta_signed\<lparr>Options := [''keyring'' \<mapsto> JString ''/tmp/test.gpg'']\<rparr>"

definition sys_badsig :: "unit sys" where
  "sys_badsig = sys_ok\<lparr>Run := \<lambda>c m. (Some (Ext ''exit status 1''), m)\<rparr>"

definition sys_noconfig :: "unit sys" where
  "sys_noconfig = sys_ok\<lparr>GetUserConfig := \<lambda>m. (cfg_op, Some (Ext ''open ~/.gomason: permission denied''))\<rparr>"

definition t_linux :: BuildTarget where
  "t_linux = \<lparr>Name = ''linux/amd64'', Cgo = False, Flags = []\<rparr>"

definition t_cgo :: BuildTarget where
  "t_cgo = \<lparr>Name = ''linux/amd64'', Cgo = True, Flags = []\<rparr>"

definition t_broken :: BuildTarget where
  "t_broken = \<lparr>Name = ''plan9/mips'', Cgo = False, Flags = [(''BROKEN'', ''1'')]\<rparr>"

definition t_darwin :: BuildTarget where
  "t_darwin = \<lparr>Name = ''darwin/amd64'', Cgo = False, Flags = [(''CC'', ''clang'')]\<rparr>"

definition sys_plain :: "unit sys" where
  "sys_plain = sys_ok\<lparr>ReadFile := \<lambda>p m. Inr ''#!/bin/sh''\<rparr>"

definition sys_nogox :: "unit sys" where
  "sys_nogox = sys_ok\<lparr>Run := \<lambda>c m.
       (if cmd_args c = [''get'', ''github.com/mitchellh/gox''] then Some (Ext ''exit status 1'') else None, m)\<rparr>"



definition sys_cfgfail :: "unit sys" where
  "sys_cfgfail = sys_ok\<lparr>GetUserConfig := \<lambda>m. (cfg_empty, Some (Ext ''open ~/.gomason: no such file''))\<rparr>"

definition sys_nogpg :: "unit sys" where
  "sys_nogpg = sys_ok\<lparr>LookPath := \<lambda>name m. Inl (Ext ''executable file not found in $PATH'')\<rparr>"

definition w_stale :: "unit world" where
  "w_stale = \<lparr>machine = \<lparr>files = {''/work'', ''/work/go/src/acme/widget/widget_linux_amd64''}, other = ()\<rparr>,
              events = []\<rparr>"

definition w_tested :: "unit world" where
  "w_tested =
     \<lparr>machine = \<lparr>files = insert ''/work/go'' (files (machine w_stale)), other = ()\<rparr>,
      events =
        [Exec \<lparr>cmd_path = ''go'', cmd_args = [''get'', ''github.com/kardianos/govendor''],
                cmd_env = [''HOME=/home/op'', ''GOPATH=/work/go'']\<rparr>,
         Exec \<lparr>cmd_path = ''/work/go/bin/govendor'', cmd_args = [''sync''],
                cmd_env = [''HOME=/home/op'', ''GOPATH=/work/go'']\<rparr>,
         Exec \<lparr>cmd_path = ''go'', cmd_args = [''test'', ''-v'', ''./...''],
                cmd_env = [''HOME=/home/op'', ''GOPATH=/work/go'']\<rparr>]\<rparr>"

section \<open>Signing and verification\<close>

text \<open>
  C1. The program and the identity that \<^verbatim>\<open>SignBinary\<close> signs with are resolved for every
  descriptor and every user configuration, in this order of precedence: the program is
  the one of the user configuration when that is not empty, else the one of the
  descriptor, else \<^verbatim>\<open>gpg\<close>; the identity is the email of the user configuration when that
  is not empty, else the email of the descriptor. When both emails are empty
  \<^verbatim>\<open>SignBinary\<close> fails; otherwise it signs with the resolved identity and names the
  resolved program in the error it wraps.
\<close>

theorem SignBinary_resolution:
  "signProg meta config =
     (if signing_Program (Signing config) \<noteq> [] then signing_Program (Signing config)
      else if Program (SignInfo meta) \<noteq> [] then Program (SignInfo meta)
      else ''gpg'')
   \<and> signEntity meta config =
     (if user_Email (User config) \<noteq> [] then user_Email (User config)
      else Email (SignInfo meta))
   \<and> (GetUserConfig sys (machine w) = (config, e) \<longrightarrow>
        SignBinary sys meta binary verbose w =
          (if user_Email (User config) = [] \<and> Email (SignInfo meta) = []
           then (Returned (Some no_entity_error), w)
           else (case SignGPG sys binary (signEntity meta config) meta w of
                   (Returned (Some err), w') \<Rightarrow>
                      (Returned (Some (Wrapf err ''failed to run %q'' [S (signProg meta config)])), w')
                 | r \<Rightarrow> r)))"
  by (auto simp: signProg_def signEntity_def SignBinary_def defaultSigningProgram_def Let_def
      split: prod.splits outcome.splits option.splits)

text \<open>The user configuration gives the email and its loading fails; the descriptor names
  no program.\<close>

theorem SignBinary_resolution_witness:
  "signProg meta_signed cfg_op = ''gpg''
   \<and> signEntity meta_signed cfg_op = ''op@example.org''
   \<and> SignBinary sys_noconfig meta_signed ''app'' False w0 =
       (Returned None,
        \<lparr>machine = machine w0,
         events = [Exec \<lparr>cmd_path = ''/usr/bin/gpg'', cmd_args = [''-bau'', ''op@example.org'', ''app''],
                         cmd_env = [''HOME=/home/op'']\<rparr>]\<rparr>)"
  using SignBinary_resolution [of meta_signed cfg_op sys_noconfig w0
          "Some (Ext ''open ~/.gomason: permission denied'')" "''app''" False]
  by (simp add: sys_noconfig_def sys_ok_def cfg_op_def meta_signed_def Metadata_zero_def w0_def
        SignGPG_def gpg_args_def os_Run_def)

text \<open>
  C3. When the descriptor has no signing email and the user configuration gives none,
  \<^verbatim>\<open>SignBinary\<close> returns the error at once: the world is the one it started in, so no
  process was started.
\<close>

theorem SignBinary_no_entity:
  "Email (SignInfo meta) = [] \<Longrightarrow> user_Email (User (fst (GetUserConfig sys (machine w)))) = [] \<Longrightarrow>
   SignBinary sys meta binary verbose w = (Returned (Some no_entity_error), w)
   \<and> events (snd (SignBinary sys meta binary verbose w)) = events w"
  by (auto simp: signEntity_def SignBinary_def Let_def split: prod.splits)

theorem SignBinary_no_entity_witness:
  "SignBinary sys_ok Metadata_zero ''app'' False w0 = (Returned (Some no_entity_error), w0)
   \<and> events (snd (SignBinary sys_ok Metadata_zero ''app'' False w0)) = events w0"
proof -
  have h1: "Email (SignInfo Metadata_zero) = []"
    by (simp add: Metadata_zero_def)
  have h2: "user_Email (User (fst (GetUserConfig sys_ok (machine w0)))) = []"
    by (simp add: sys_ok_def cfg_empty_def)
  show ?thesis
    by (rule SignBinary_no_entity [OF h1 h2])
qed

text \<open>
  C4, as stated, fails: a verifier that exits with a status other than zero makes
  \<^verbatim>\<open>VerifyGPG\<close> return \<^verbatim>\<open>ok = false\<close> together with the verifier's error, not with \<^verbatim>\<open>nil\<close>.
\<close>

theorem VerifyGPG_reports_counterexample:
  "fst (VerifyGPG sys_badsig ''app'' meta_signed w0) = Returned (False, Some (Ext ''exit status 1''))
   \<and> events (snd (VerifyGPG sys_badsig ''app'' meta_signed w0))
       = [Exec \<lparr>cmd_path = ''/usr/bin/gpg'', cmd_args = [''--verify'', ''app.asc''],
                 cmd_env = [''HOME=/home/op'']\<rparr>]"
  by (simp add: VerifyGPG_def sys_badsig_def sys_ok_def meta_signed_def Metadata_zero_def w0_def
        gpg_args_def os_Run_def)

lemma VerifyGPG_run:
  assumes "LookPath sys ''gpg'' (machine w) = Inr p"
    and "gpg_args meta [''--verify'', binary @ ''.asc''] = Some args"
  shows "VerifyGPG sys binary meta w =
     (case Run sys \<lparr>cmd_path = p, cmd_args = args, cmd_env = Environ sys\<rparr> (machine w) of
        (None, m') \<Rightarrow>
          (Returned (True, None),
           \<lparr>machine = m', events = events w @ [Exec \<lparr>cmd_path = p, cmd_args = args, cmd_env = Environ sys\<rparr>]\<rparr>)
      | (Some err, m') \<Rightarrow>
          (Returned (False, Some err),
           \<lparr>machine = m', events = events w @ [Exec \<lparr>cmd_path = p, cmd_args = args, cmd_env = Environ sys\<rparr>]\<rparr>))"
  using assms by (simp add: VerifyGPG_def os_Run_def split: prod.splits option.splits)

lemma VerifyGPG_ok_iff_no_error:
  "fst (VerifyGPG sys binary meta w) = Returned (ok, err) \<Longrightarrow> ok \<longleftrightarrow> err = None"
  by (auto simp: VerifyGPG_def os_Run_def Let_def split: sum.splits option.splits prod.splits)

lemma gpg_args_tail:
  "gpg_args meta tail = Some args \<Longrightarrow> \<exists>pre. args = pre @ tail"
  by (auto simp: gpg_args_def split: option.splits jvalue.splits)

lemma VerifyGPG_not_found:
  "LookPath sys ''gpg'' (machine w) = Inl err \<Longrightarrow>
   VerifyGPG sys binary meta w =
     (Returned (False, Some (Wrapf err ''can't find signing program 'gpg' in path.  Is it installed?'' [])), w)"
  by (simp add: VerifyGPG_def)

lemma VerifyGPG_panics:
  "LookPath sys ''gpg'' (machine w) = Inr p \<Longrightarrow>
   gpg_args meta [''--verify'', binary @ ''.asc''] = None \<Longrightarrow>
   VerifyGPG sys binary meta w = (Panicked, w)"
  by (simp add: VerifyGPG_def)

lemma VerifyGPG_true_iff:
  "fst (VerifyGPG sys binary meta w) = Returned (True, None) \<longleftrightarrow>
     (\<exists>p args. LookPath sys ''gpg'' (machine w) = Inr p
        \<and> gpg_args meta [''--verify'', binary @ ''.asc''] = Some args
        \<and> fst (Run sys \<lparr>cmd_path = p, cmd_args = args, cmd_env = Environ sys\<rparr> (machine w)) = None)"
proof (cases "LookPath sys ''gpg'' (machine w)")
  case (Inl err)
  then show ?thesis by (simp add: VerifyGPG_not_found)
next
  case (Inr p)
  show ?thesis
  proof (cases "gpg_args meta [''--verify'', binary @ ''.asc'']")
    case None
    with Inr show ?thesis by (simp add: VerifyGPG_panics)
  next
    case (Some args)
    obtain r m' where run: "Run sys \<lparr>cmd_path = p, cmd_args = args, cmd_env = Environ sys\<rparr> (machine w) = (r, m')"
      by (cases "Run sys \<lparr>cmd_path = p, cmd_args = args, cmd_env = Environ sys\<rparr> (machine w)")
    show ?thesis
      unfolding VerifyGPG_run [OF Inr Some] Inr Some
      by (cases r) (simp_all add: run)
  qed
qed

lemma gpg_args_None_iff:
  "gpg_args meta tail = None \<longleftrightarrow>
     Options meta ''keyring'' \<noteq> None
     \<and> \<not> (\<exists>t k. Options meta ''trustdb'' = Some (JString t) \<and> Options meta ''keyring'' = Some (JString k))"
  by (auto simp: gpg_args_def split: option.splits jvalue.splits)

text \<open>
  C4, amended. \<^verbatim>\<open>VerifyGPG\<close> returns \<^verbatim>\<open>ok = true\<close> exactly when it returns no error, and it
  returns \<^verbatim>\<open>(true, nil)\<close> exactly when \<^verbatim>\<open>gpg\<close> is found, the options are well formed and the
  run of the verifier reports no error. When \<^verbatim>\<open>gpg\<close> is not found it returns \<^verbatim>\<open>false\<close> with
  the wrapped error of the lookup and starts nothing. When \<^verbatim>\<open>gpg\<close> is found and the
  options are well formed, it runs the verifier once, on the signature at the binary's
  path followed by \<^verbatim>\<open>.asc\<close>: a run without error gives \<^verbatim>\<open>(true, nil)\<close>, a run with an error
  (a status other than zero, which is also how the verifier reports a missing signature
  file) gives \<^verbatim>\<open>false\<close> together with that error. The options are well formed unless
  \<^verbatim>\<open>keyring\<close> is among them without both \<^verbatim>\<open>keyring\<close> and \<^verbatim>\<open>trustdb\<close> being strings; then, once
  \<^verbatim>\<open>gpg\<close> is found, the function panics.
\<close>

theorem VerifyGPG_reports:
  "(\<forall>ok err. fst (VerifyGPG sys binary meta w) = Returned (ok, err) \<longrightarrow> (ok \<longleftrightarrow> err = None))
   \<and> (\<forall>p args. LookPath sys ''gpg'' (machine w) = Inr p \<longrightarrow>
         gpg_args meta [''--verify'', binary @ ''.asc''] = Some args \<longrightarrow>
         (\<exists>pre. args = pre @ [''--verify'', binary @ ''.asc''])
         \<and> VerifyGPG sys binary meta w =
            (case Run sys \<lparr>cmd_path = p, cmd_args = args, cmd_env = Environ sys\<rparr> (machine w) of
               (None, m') \<Rightarrow>
                 (Returned (True, None),
                  \<lparr>machine = m',
                   events = events w @ [Exec \<lparr>cmd_path = p, cmd_args = args, cmd_env = Environ sys\<rparr>]\<rparr>)
             | (Some err, m') \<Rightarrow>
                 (Returned (False, Some err),
                  \<lparr>machine = m',
                   events = events w @ [Exec \<lparr>cmd_path = p, cmd_args = args, cmd_env = Environ sys\<rparr>]\<rparr>)))
   \<and> (Options meta ''keyring'' = None \<longrightarrow>
         gpg_args meta [''--verify'', binary @ ''.asc''] = Some [''--verify'', binary @ ''.asc''])
   \<and> (\<forall>err. LookPath sys ''gpg'' (machine w) = Inl err \<longrightarrow>
         VerifyGPG sys binary meta w =
           (Returned (False, Some (Wrapf err ''can't find signing program 'gpg' in path.  Is it installed?'' [])),
            w))
   \<and> (\<forall>p. LookPath sys ''gpg'' (machine w) = Inr p \<longrightarrow>
         gpg_args meta [''--verify'', binary @ ''.asc''] = None \<longrightarrow>
         VerifyGPG sys binary meta w = (Panicked, w))
   \<and> (fst (VerifyGPG sys binary meta w) = Returned (True, None) \<longleftrightarrow>
         (\<exists>p args. LookPath sys ''gpg'' (machine w) = Inr p
            \<and> gpg_args meta [''--verify'', binary @ ''.asc''] = Some args
            \<and> fst (Run sys \<lparr>cmd_path = p, cmd_args = args, cmd_env = Environ sys\<rparr> (machine w)) = None))
   \<and> (gpg_args meta [''--verify'', binary @ ''.asc''] = None \<longleftrightarrow>
         Options meta ''keyring'' \<noteq> None
         \<and> \<not> (\<exists>t k. Options meta ''trustdb'' = Some (JString t)
                      \<and> Options meta ''keyring'' = Some (JString k)))"
proof (intro conjI allI impI)
  fix ok err
  assume "fst (VerifyGPG sys binary meta w) = Returned (ok, err)"
  then show "ok \<longleftrightarrow> err = None" by (rule VerifyGPG_ok_iff_no_error)
next
  fix p args
  assume "LookPath sys ''gpg'' (machine w) = Inr p"
    and "gpg_args meta [''--verify'', binary @ ''.asc''] = Some args"
  then show "VerifyGPG sys binary meta w =
            (case Run sys \<lparr>cmd_path = p, cmd_args = args, cmd_env = Environ sys\<rparr> (machine w) of
               (None, m') \<Rightarrow>
                 (Returned (True, None),
                  \<lparr>machine = m',
                   events = events w @ [Exec \<lparr>cmd_path = p, cmd_args = args, cmd_env = Environ sys\<rparr>]\<rparr>)
             | (Some err, m') \<Rightarrow>
                 (Returned (False, Some err),
                  \<lparr>machine = m',
                   events = events w @ [Exec \<lparr>cmd_path = p, cmd_args = args, cmd_env = Environ sys\<rparr>]\<rparr>))"
    by (rule VerifyGPG_run)
next
  fix p args
  assume "gpg_args meta [''--verify'', binary @ ''.asc''] = Some args"
  then show "\<exists>pre. args = pre @ [''--verify'', binary @ ''.asc'']" by (rule gpg_args_tail)
next
  assume "Options meta ''keyring'' = None"
  then show "gpg_args meta [''--verify'', binary @ ''.asc''] = Some [''--verify'', binary @ ''.asc'']"
    by (simp add: gpg_args_def)
next
  fix err
  assume "LookPath sys ''gpg'' (machine w) = Inl err"
  then show "VerifyGPG sys binary meta w =
           (Returned (False, Some (Wrapf err ''can't find signing program 'gpg' in path.  Is it installed?'' [])),
            w)"
    by (rule VerifyGPG_not_found)
next
  fix p
  assume "LookPath sys ''gpg'' (machine w) = Inr p"
    and "gpg_args meta [''--verify'', binary @ ''.asc''] = None"
  then show "VerifyGPG sys binary meta w = (Panicked, w)" by (rule VerifyGPG_panics)
next
  show "fst (VerifyGPG sys binary meta w) = Returned (True, None) \<longleftrightarrow>
         (\<exists>p args. LookPath sys ''gpg'' (machine w) = Inr p
            \<and> gpg_args meta [''--verify'', binary @ ''.asc''] = Some args
            \<and> fst (Run sys \<lparr>cmd_path = p, cmd_args = args, cmd_env = Environ sys\<rparr> (machine w)) = None)"
    by (rule VerifyGPG_true_iff)
next
  show "gpg_args meta [''--verify'', binary @ ''.asc''] = None \<longleftrightarrow>
         Options meta ''keyring'' \<noteq> None
         \<and> \<not> (\<exists>t k. Options meta ''trustdb'' = Some (JString t)
                      \<and> Options meta ''keyring'' = Some (JString k))"
    by (rule gpg_args_None_iff)
qed

text \<open>A verifier that fails, a verifier that succeeds, a machine without \<^verbatim>\<open>gpg\<close>, and
  options with a keyring and no trust database.\<close>

theorem VerifyGPG_reports_witness:
  "VerifyGPG sys_badsig ''app'' meta_signed w0 =
     (Returned (False, Some (Ext ''exit status 1'')),
      \<lparr>machine = machine w0,
       events = [Exec \<lparr>cmd_path = ''/usr/bin/gpg'', cmd_args = [''--verify'', ''app.asc''],
                       cmd_env = [''HOME=/home/op'']\<rparr>]\<rparr>)
   \<and> VerifyGPG sys_ok ''app'' meta_signed w0 =
     (Returned (True, None),
      \<lparr>machine = machine w0,
       events = [Exec \<lparr>cmd_path = ''/usr/bin/gpg'', cmd_args = [''--verify'', ''app.asc''],
                       cmd_env = [''HOME=/home/op'']\<rparr>]\<rparr>)
   \<and> VerifyGPG sys_nogpg ''app'' meta_signed w0 =
     (Returned (False, Some (Wrapf (Ext ''executable file not found in $PATH'')
                               ''can't find signing program 'gpg' in path.  Is it installed?'' [])), w0)
   \<and> VerifyGPG sys_ok ''app'' meta_keyring w0 = (Panicked, w0)"
proof -
  have k: "Options meta_signed ''keyring'' = None"
    by (simp add: meta_signed_def Metadata_zero_def)
  note a = VerifyGPG_reports [of sys_ok "''app''" meta_signed w0,
             THEN conjunct2, THEN conjunct2, THEN conjunct1, rule_format, OF k]
  have l1: "LookPath sys_badsig ''gpg'' (machine w0) = Inr ''/usr/bin/gpg''"
    by (simp add: sys_badsig_def sys_ok_def)
  have l2: "LookPath sys_ok ''gpg'' (machine w0) = Inr ''/usr/bin/gpg''"
    by (simp add: sys_ok_def)
  have l3: "LookPath sys_nogpg ''gpg'' (machine w0) = Inl (Ext ''executable file not found in $PATH'')"
    by (simp add: sys_nogpg_def)
  note r1 = VerifyGPG_reports [of sys_badsig "''app''" meta_signed w0,
              THEN conjunct2, THEN conjunct1, rule_format, OF l1 a, THEN conjunct2]
  note r2 = VerifyGPG_reports [of sys_ok "''app''" meta_signed w0,
              THEN conjunct2, THEN conjunct1, rule_format, OF l2 a, THEN conjunct2]
  note r3 = VerifyGPG_reports [of sys_nogpg "''app''" meta_signed w0,
              THEN conjunct2, THEN conjunct2, THEN conjunct2, THEN conjunct1, rule_format, OF l3]
  have n: "gpg_args meta_keyring [''--verify'', ''app'' @ ''.asc''] = None"
    by (simp add: gpg_args_def meta_keyring_def meta_signed_def Metadata_zero_def)
  note r4 = VerifyGPG_reports [of sys_ok "''app''" meta_keyring w0,
              THEN conjunct2, THEN conjunct2, THEN conjunct2, THEN conjunct2, THEN conjunct1,
              rule_format, OF l2 n]
  show ?thesis
    unfolding r1 r2 r3 r4 by (simp add: sys_badsig_def sys_ok_def w0_def)
qed

lemma SignGPG_GetUserConfig_update:
  "SignGPG (sys\<lparr>GetUserConfig := g\<rparr>) binary ent meta w = SignGPG sys binary ent meta w"
  by (simp add: SignGPG_def os_Run_def split: sum.splits option.splits)

lemma SignBinary_unfolded:
  assumes "GetUserConfig sys (machine w) = (config, e)"
  shows "SignBinary sys meta binary verbose w =
      (if (if user_Email (User config) \<noteq> [] then user_Email (User config)
           else Email (SignInfo meta)) = []
       then (Returned (Some no_entity_error), w)
       else (case SignGPG sys binary
                   (if user_Email (User config) \<noteq> [] then user_Email (User config)
                    else Email (SignInfo meta)) meta w of
               (Returned (Some err), w') \<Rightarrow>
                 (Returned (Some (Wrapf err ''failed to run %q''
                    [S (if signing_Program (Signing config) \<noteq> [] then signing_Program (Signing config)
                        else if Program (SignInfo meta) \<noteq> [] then Program (SignInfo meta)
                        else ''gpg'')])), w')
             | r \<Rightarrow> r))"
  using assms
  by (auto simp: signProg_def signEntity_def SignBinary_def defaultSigningProgram_def Let_def
      split: prod.splits outcome.splits option.splits)

lemma SignBinary_not_config_error:
  "fst (SignBinary sys meta binary verbose w)
     \<noteq> Returned (Some (Wrapf e0 ''failed to get per-user config from ~/.gomason'' args))"
proof -
  obtain config e where c: "GetUserConfig sys (machine w) = (config, e)"
    by (cases "GetUserConfig sys (machine w)")
  show ?thesis
    unfolding SignBinary_unfolded [OF c]
    by (auto simp: no_entity_error_def split: prod.splits outcome.splits option.splits)
qed

text \<open>
  C10. Whatever \<^verbatim>\<open>GetUserConfig\<close> returns, a configuration with an error or without one,
  \<^verbatim>\<open>SignBinary\<close> goes on with the values of the configuration returned: it signs with the
  configuration's email when that is not empty and with the descriptor's otherwise, and
  names the program resolved the same way; it fails before signing only when both
  emails are empty. The error of \<^verbatim>\<open>GetUserConfig\<close> has no part in the result: the result
  is the same with any other error or none, and the error returned is never the wrapped
  error of the loading.
\<close>

theorem SignBinary_ignores_config_error:
  "(GetUserConfig sys (machine w) = (config, e) \<longrightarrow>
      SignBinary sys meta binary verbose w =
        (if (if user_Email (User config) \<noteq> [] then user_Email (User config)
             else Email (SignInfo meta)) = []
         then (Returned (Some no_entity_error), w)
         else (case SignGPG sys binary
                     (if user_Email (User config) \<noteq> [] then user_Email (User config)
                      else Email (SignInfo meta)) meta w of
                 (Returned (Some err), w') \<Rightarrow>
                   (Returned (Some (Wrapf err ''failed to run %q''
                      [S (if signing_Program (Signing config) \<noteq> [] then signing_Program (Signing config)
                          else if Program (SignInfo meta) \<noteq> [] then Program (SignInfo meta)
                          else ''gpg'')])), w')
               | r \<Rightarrow> r)))
   \<and> SignBinary (sys\<lparr>GetUserConfig := \<lambda>m. (fst (GetUserConfig sys m), e' m)\<rparr>) meta binary verbose w
       = SignBinary sys meta binary verbose w
   \<and> (\<forall>e0 args. fst (SignBinary sys meta binary verbose w)
         \<noteq> Returned (Some (Wrapf e0 ''failed to get per-user config from ~/.gomason'' args)))"
proof (intro conjI allI impI)
  assume "GetUserConfig sys (machine w) = (config, e)"
  then show "SignBinary sys meta binary verbose w =
        (if (if user_Email (User config) \<noteq> [] then user_Email (User config)
             else Email (SignInfo meta)) = []
         then (Returned (Some no_entity_error), w)
         else (case SignGPG sys binary
                     (if user_Email (User config) \<noteq> [] then user_Email (User config)
                      else Email (SignInfo meta)) meta w of
                 (Returned (Some err), w') \<Rightarrow>
                   (Returned (Some (Wrapf err ''failed to run %q''
                      [S (if signing_Program (Signing config) \<noteq> [] then signing_Program (Signing config)
                          else if Program (SignInfo meta) \<noteq> [] then Program (SignInfo meta)
                          else ''gpg'')])), w')
               | r \<Rightarrow> r))"
    by (rule SignBinary_unfolded)
next
  show "SignBinary (sys\<lparr>GetUserConfig := \<lambda>m. (fst (GetUserConfig sys m), e' m)\<rparr>) meta binary verbose w
       = SignBinary sys meta binary verbose w"
    by (cases "GetUserConfig sys (machine w)") (simp add: SignBinary_def SignGPG_GetUserConfig_update)
next
  fix e0 args
  show "fst (SignBinary sys meta binary verbose w)
         \<noteq> Returned (Some (Wrapf e0 ''failed to get per-user config from ~/.gomason'' args))"
    by (rule SignBinary_not_config_error)
qed

text \<open>The loading fails and returns an empty configuration: the signature is made with
  the descriptor's email.\<close>

theorem SignBinary_ignores_config_error_witness:
  "SignBinary sys_cfgfail meta_signed ''app'' False w0 =
     (Returned None,
      \<lparr>machine = machine w0,
       events = [Exec \<lparr>cmd_path = ''/usr/bin/gpg'',
                       cmd_args = [''-bau'', ''release@example.org'', ''app''],
                       cmd_env = [''HOME=/home/op'']\<rparr>]\<rparr>)"
proof -
  have c: "GetUserConfig sys_cfgfail (machine w0) = (cfg_empty, Some (Ext ''open ~/.gomason: no such file''))"
    by (simp add: sys_cfgfail_def)
  show ?thesis
    unfolding SignBinary_ignores_config_error [of sys_cfgfail w0 cfg_empty
                  "Some (Ext ''open ~/.gomason: no such file'')" meta_signed "''app''" False,
                THEN conjunct1, rule_format, OF c]
    by (simp add: sys_cfgfail_def sys_ok_def cfg_empty_def meta_signed_def Metadata_zero_def w0_def
          SignGPG_def gpg_args_def os_Run_def)
qed

text \<open>
  C9. In \<^verbatim>\<open>SignGPG\<close> and in \<^verbatim>\<open>VerifyGPG\<close>, when the options hold the key \<^verbatim>\<open>keyring\<close> and no
  string under \<^verbatim>\<open>trustdb\<close>, the type assertion on \<^verbatim>\<open>trustdb\<close> is reached as soon as \<^verbatim>\<open>gpg\<close>
  is found, and it panics: the function does not return, and no process is started.
\<close>

theorem keyring_without_trustdb_panics:
  "Options meta ''keyring'' = Some k \<Longrightarrow> (\<forall>s. Options meta ''trustdb'' \<noteq> Some (JString s)) \<Longrightarrow>
   LookPath sys ''gpg'' (machine w) = Inr p \<Longrightarrow>
   SignGPG sys binary signingEntity meta w = (Panicked, w)
   \<and> VerifyGPG sys binary meta w = (Panicked, w)"
  by (auto simp: SignGPG_def VerifyGPG_def gpg_args_def split: option.splits jvalue.splits)

theorem keyring_without_trustdb_panics_witness:
  "SignGPG sys_ok ''app'' ''release@example.org'' meta_keyring w0 = (Panicked, w0)
   \<and> VerifyGPG sys_ok ''app'' meta_keyring w0 = (Panicked, w0)"
proof -
  have h1: "Options meta_keyring ''keyring'' = Some (JString ''/tmp/test.gpg'')"
    by (simp add: meta_keyring_def)
  have h2: "\<forall>s. Options meta_keyring ''trustdb'' \<noteq> Some (JString s)"
    by (simp add: meta_keyring_def)
  have h3: "LookPath sys_ok ''gpg'' (machine w0) = Inr ''/usr/bin/gpg''"
    by (simp add: sys_ok_def)
  show ?thesis
    by (rule keyring_without_trustdb_panics [OF h1 h2 h3])
qed

section \<open>The build matrix\<close>

lemma Build_targets_append:
  "Build_targets sys gopath gox (xs @ ys) w =
     (case Build_targets sys gopath gox xs w of
        (Some e, w1) \<Rightarrow> (Some e, w1)
      | (None, w1) \<Rightarrow> Build_targets sys gopath gox ys w1)"
  by (induction xs arbitrary: w) (auto split: prod.splits option.splits)

lemma os_Run_events: "events (snd (os_Run sys c w)) = events w @ [Exec c]"
  by (simp add: os_Run_def split: prod.splits)

lemma Build_targets_events:
  "\<exists>k\<le>length ts.
     events (snd (Build_targets sys gopath gox ts w))
       = events w @ map (\<lambda>t. Exec (target_cmd sys gopath gox t)) (take k ts)
     \<and> (fst (Build_targets sys gopath gox ts w) = None \<longrightarrow> k = length ts)
     \<and> (fst (Build_targets sys gopath gox ts w) \<noteq> None \<longrightarrow> 0 < k)"
proof (induction ts arbitrary: w)
  case Nil
  then show ?case by simp
next
  case (Cons t ts)
  obtain r w' where run: "os_Run sys (target_cmd sys gopath gox t) w = (r, w')"
    by (cases "os_Run sys (target_cmd sys gopath gox t) w")
  have ev: "events w' = events w @ [Exec (target_cmd sys gopath gox t)]"
    using os_Run_events[of sys "target_cmd sys gopath gox t" w] run by simp
  show ?case
  proof (cases r)
    case None
    have bt: "Build_targets sys gopath gox (t # ts) w = Build_targets sys gopath gox ts w'"
      using run None by simp
    from Cons.IH[of w'] show ?thesis
    proof (elim exE conjE)
      fix k
      assume k1: "k \<le> length ts"
        and k2: "events (snd (Build_targets sys gopath gox ts w'))
           = events w' @ map (\<lambda>t. Exec (target_cmd sys gopath gox t)) (take k ts)"
        and k3: "fst (Build_targets sys gopath gox ts w') = None \<longrightarrow> k = length ts"
      have "Suc k \<le> length (t # ts)" using k1 by simp
      moreover have "events (snd (Build_targets sys gopath gox (t # ts) w))
          = events w @ map (\<lambda>t. Exec (target_cmd sys gopath gox t)) (take (Suc k) (t # ts))"
        unfolding bt k2 ev by simp
      moreover have "fst (Build_targets sys gopath gox (t # ts) w) = None \<longrightarrow> Suc k = length (t # ts)"
        unfolding bt using k3 by simp
      moreover have "fst (Build_targets sys gopath gox (t # ts) w) \<noteq> None \<longrightarrow> 0 < Suc k"
        by simp
      ultimately show ?thesis by (intro exI[of _ "Suc k"] conjI)
    qed
  next
    case (Some e)
    have bt: "Build_targets sys gopath gox (t # ts) w = (Some e, w')"
      using run Some by simp
    have "Suc 0 \<le> length (t # ts)" by simp
    moreover have "events (snd (Build_targets sys gopath gox (t # ts) w))
        = events w @ map (\<lambda>t. Exec (target_cmd sys gopath gox t)) (take (Suc 0) (t # ts))"
      unfolding bt using ev by simp
    moreover have "fst (Build_targets sys gopath gox (t # ts) w) = None \<longrightarrow> Suc 0 = length (t # ts)"
      unfolding bt by simp
    moreover have "fst (Build_targets sys gopath gox (t # ts) w) \<noteq> None \<longrightarrow> 0 < Suc 0"
      by simp
    ultimately show ?thesis by (intro exI[of _ "Suc 0"] conjI)
  qed
qed

lemma target_env_eq:
  "target_env sys gopath t =
     Environ sys @ [''GOPATH='' @ gopath] @ map (\<lambda>(k, v). k @ ''='' @ v) (Flags t)"
proof -
  have "foldl (\<lambda>runenv (k, v). runenv @ [k @ ''='' @ v]) acc fs
          = acc @ map (\<lambda>(k, v). k @ ''='' @ v) fs" for acc and fs :: "(string \<times> string) list"
    by (induction fs arbitrary: acc) (auto)
  then show ?thesis by (simp add: target_env_def)
qed

lemma Build_targets_stops:
  assumes pre: "Build_targets sys gopath gox pre w = (None, w1)"
    and run: "Run sys (target_cmd sys gopath gox t) (machine w1) = (Some e, m2)"
  shows "Build_targets sys gopath gox (pre @ t # post) w
          = (Some e, \<lparr>machine = m2,
                      events = events w @ map (\<lambda>t. Exec (target_cmd sys gopath gox t)) (pre @ [t])\<rparr>)"
proof -
  from Build_targets_events[of pre sys gopath gox w]
  have ev: "events w1 = events w @ map (\<lambda>t. Exec (target_cmd sys gopath gox t)) pre"
    unfolding pre by (elim exE conjE) simp
  show ?thesis
    by (simp add: Build_targets_append pre os_Run_def run ev)
qed

lemma Build_runs_targets:
  assumes "gopath @ ''/go/bin/gox'' \<in> files (machine w)"
    and "gopath @ ''/'' @ GPackage meta @ ''/metadata.json'' \<in> files (machine w)"
    and "Chdir sys (gopath @ ''/src/'' @ GPackage meta) (machine w) = (None, m1)"
    and "gomason_ReadMetadata sys (gopath @ ''/src/'' @ GPackage meta @ ''/metadata.json'') m1 = Inr md"
  shows "Build sys gopath meta branch verbose w =
     (case Build_targets sys gopath (gopath @ ''/bin/gox'') (Targets (BuildInfo md)) (w\<lparr>machine := m1\<rparr>) of
        (Some err, w4) \<Rightarrow> (Some err, w4)
      | (None, w4) \<Rightarrow>
          (case BuildExtras sys md (gopath @ ''/src/'' @ GPackage meta) verbose w4 of
             (Some err, w5) \<Rightarrow> (Some (Wrapf err ''Failed to build extras'' []), w5)
           | (None, w5) \<Rightarrow> (None, w5)))"
  using assms by (simp add: Build_def stat_IsNotExist_def lift_m_def Let_def split: prod.splits option.splits)

text \<open>
  C2, as stated, fails in one point: the flag for native interop is not part of the
  environment of the compiler. A target with \<^verbatim>\<open>cgo\<close> set gets the same environment as
  without it; \<^verbatim>\<open>-cgo\<close> is in the command line.
\<close>

theorem Build_targets_fail_fast_counterexample:
  "cmd_env (target_cmd sys_ok ''/w/go'' ''/w/go/bin/gox'' t_cgo) = [''HOME=/home/op'', ''GOPATH=/w/go'']
   \<and> cmd_env (target_cmd sys_ok ''/w/go'' ''/w/go/bin/gox'' t_cgo)
       = cmd_env (target_cmd sys_ok ''/w/go'' ''/w/go/bin/gox'' t_linux)
   \<and> cmd_args (target_cmd sys_ok ''/w/go'' ''/w/go/bin/gox'' t_cgo)
       = [''-c'', ''/w/go/bin/gox -cgo -osarch='' @ [CHR 0x22] @ ''linux/amd64'' @ [CHR 0x22] @ '' ./...'']"
  by (simp add: target_cmd_def target_env_def sys_ok_def t_cgo_def t_linux_def)

text \<open>
  C2, amended. For a list of \<open>N\<close> build targets the loop of \<^verbatim>\<open>Build\<close> starts the
  cross-compiler for the first \<open>k \<le> N\<close> targets, once each, in the order of the
  descriptor, and for all \<open>N\<close> when it returns no error; when it returns an error, at
  least one was started. When the targets before \<open>t\<close> succeed and the compiler fails for
  \<open>t\<close>, the loop returns that error unchanged and the last process it started is the one
  for \<open>t\<close>: no later target is attempted. Each compiler runs through \<^verbatim>\<open>sh -c\<close> with the
  environment of the process, then \<^verbatim>\<open>GOPATH\<close>, then the target's flags; \<^verbatim>\<open>-cgo\<close>, when
  enabled, is an argument of the compiler, not a variable of the environment. When gox
  and the checkout are in place and the descriptor of the checkout is read, \<^verbatim>\<open>Build\<close> is
  this loop over the descriptor's targets, followed by the extras when the loop
  returned no error.
\<close>

theorem Build_targets_fail_fast:
  "(\<exists>k\<le>length ts.
      events (snd (Build_targets sys gopath gox ts w))
        = events w @ map (\<lambda>t. Exec (target_cmd sys gopath gox t)) (take k ts)
      \<and> (fst (Build_targets sys gopath gox ts w) = None \<longrightarrow> k = length ts)
      \<and> (fst (Build_targets sys gopath gox ts w) \<noteq> None \<longrightarrow> 0 < k))
   \<and> (\<forall>pre t post w1 e m2.
        ts = pre @ t # post \<longrightarrow>
        Build_targets sys gopath gox pre w = (None, w1) \<longrightarrow>
        Run sys (target_cmd sys gopath gox t) (machine w1) = (Some e, m2) \<longrightarrow>
        Build_targets sys gopath gox ts w
          = (Some e, \<lparr>machine = m2,
                      events = events w @ map (\<lambda>t. Exec (target_cmd sys gopath gox t)) (pre @ [t])\<rparr>))
   \<and> (\<forall>t. cmd_path (target_cmd sys gopath gox t) = ''sh''
        \<and> cmd_args (target_cmd sys gopath gox t)
            = [''-c'', gox @ (if Cgo t then '' -cgo'' else []) @ '' -osarch='' @ [CHR 0x22] @ Name t
                        @ [CHR 0x22] @ '' ./...'']
        \<and> cmd_env (target_cmd sys gopath gox t)
            = Environ sys @ [''GOPATH='' @ gopath] @ map (\<lambda>(k, v). k @ ''='' @ v) (Flags t))
   \<and> (\<forall>meta branch verbose m1 md.
        gopath @ ''/go/bin/gox'' \<in> files (machine w) \<longrightarrow>
        gopath @ ''/'' @ GPackage meta @ ''/metadata.json'' \<in> files (machine w) \<longrightarrow>
        Chdir sys (gopath @ ''/src/'' @ GPackage meta) (machine w) = (None, m1) \<longrightarrow>
        gomason_ReadMetadata sys (gopath @ ''/src/'' @ GPackage meta @ ''/metadata.json'') m1 = Inr md \<longrightarrow>
        Build sys gopath meta branch verbose w =
          (case Build_targets sys gopath (gopath @ ''/bin/gox'') (Targets (BuildInfo md))
                  (w\<lparr>machine := m1\<rparr>) of
             (Some err, w4) \<Rightarrow> (Some err, w4)
           | (None, w4) \<Rightarrow>
               (case BuildExtras sys md (gopath @ ''/src/'' @ GPackage meta) verbose w4 of
                  (Some err, w5) \<Rightarrow> (Some (Wrapf err ''Failed to build extras'' []), w5)
                | (None, w5) \<Rightarrow> (None, w5))))"
proof (intro conjI allI impI)
  show "\<exists>k\<le>length ts.
      events (snd (Build_targets sys gopath gox ts w))
        = events w @ map (\<lambda>t. Exec (target_cmd sys gopath gox t)) (take k ts)
      \<and> (fst (Build_targets sys gopath gox ts w) = None \<longrightarrow> k = length ts)
      \<and> (fst (Build_targets sys gopath gox ts w) \<noteq> None \<longrightarrow> 0 < k)"
    by (rule Build_targets_events)
next
  fix pre t post w1 e m2
  assume ts: "ts = pre @ t # post"
    and pre: "Build_targets sys gopath gox pre w = (None, w1)"
    and run: "Run sys (target_cmd sys gopath gox t) (machine w1) = (Some e, m2)"
  show "Build_targets sys gopath gox ts w
          = (Some e, \<lparr>machine = m2,
                      events = events w @ map (\<lambda>t. Exec (target_cmd sys gopath gox t)) (pre @ [t])\<rparr>)"
    unfolding ts by (rule Build_targets_stops[OF pre run])
next
  fix meta :: GMetadata and branch verbose m1 md
  assume "gopath @ ''/go/bin/gox'' \<in> files (machine w)"
    "gopath @ ''/'' @ GPackage meta @ ''/metadata.json'' \<in> files (machine w)"
    "Chdir sys (gopath @ ''/src/'' @ GPackage meta) (machine w) = (None, m1)"
    "gomason_ReadMetadata sys (gopath @ ''/src/'' @ GPackage meta @ ''/metadata.json'') m1 = Inr md"
  then show "Build sys gopath meta branch verbose w =
          (case Build_targets sys gopath (gopath @ ''/bin/gox'') (Targets (BuildInfo md))
                  (w\<lparr>machine := m1\<rparr>) of
             (Some err, w4) \<Rightarrow> (Some err, w4)
           | (None, w4) \<Rightarrow>
               (case BuildExtras sys md (gopath @ ''/src/'' @ GPackage meta) verbose w4 of
                  (Some err, w5) \<Rightarrow> (Some (Wrapf err ''Failed to build extras'' []), w5)
                | (None, w5) \<Rightarrow> (None, w5)))"
    by (rule Build_runs_targets)
qed (simp_all add: target_cmd_def target_env_eq Let_def)

text \<open>Three targets, the second of which fails: two processes, and its error.\<close>

theorem Build_targets_fail_fast_witness:
  "Build_targets sys_ok ''/w/go'' ''/w/go/bin/gox'' [t_linux, t_broken, t_darwin] w0 =
     (Some (Ext ''exit status 1''),
      \<lparr>machine = machine w0,
       events = [Exec (target_cmd sys_ok ''/w/go'' ''/w/go/bin/gox'' t_linux),
                 Exec (target_cmd sys_ok ''/w/go'' ''/w/go/bin/gox'' t_broken)]\<rparr>)"
proof -
  have h1: "[t_linux, t_broken, t_darwin] = [t_linux] @ t_broken # [t_darwin]"
    by simp
  have h2: "Build_targets sys_ok ''/w/go'' ''/w/go/bin/gox'' [t_linux] w0
              = (None, \<lparr>machine = machine w0,
                        events = [Exec (target_cmd sys_ok ''/w/go'' ''/w/go/bin/gox'' t_linux)]\<rparr>)"
    by (simp add: os_Run_def target_cmd_def target_env_def sys_ok_def t_linux_def w0_def)
  have h3: "Run sys_ok (target_cmd sys_ok ''/w/go'' ''/w/go/bin/gox'' t_broken)
              (machine \<lparr>machine = machine w0,
                        events = [Exec (target_cmd sys_ok ''/w/go'' ''/w/go/bin/gox'' t_linux)]\<rparr>)
              = (Some (Ext ''exit status 1''), machine w0)"
    by (simp add: target_cmd_def target_env_def sys_ok_def t_broken_def)
  have "Build_targets sys_ok ''/w/go'' ''/w/go/bin/gox'' [t_linux, t_broken, t_darwin] w0
          = (Some (Ext ''exit status 1''),
             \<lparr>machine = machine w0,
              events = events w0 @ map (\<lambda>t. Exec (target_cmd sys_ok ''/w/go'' ''/w/go/bin/gox'' t))
                                      ([t_linux] @ [t_broken])\<rparr>)"
    by (rule Build_targets_fail_fast [of "[t_linux, t_broken, t_darwin]" sys_ok "''/w/go''"
                "''/w/go/bin/gox''" w0, THEN conjunct2, THEN conjunct1, rule_format, OF h1 h2 h3])
  then show ?thesis by (simp add: w0_def)
qed

section \<open>Extra artifacts\<close>

lemma BuildExtras_loop_append:
  "BuildExtras_loop sys meta workdir verbose (xs @ ys) w =
     (case BuildExtras_loop sys meta workdir verbose xs w of
        (Some e, w1) \<Rightarrow> (Some e, w1)
      | (None, w1) \<Rightarrow> BuildExtras_loop sys meta workdir verbose ys w1)"
proof (induction xs arbitrary: w)
  case Nil
  show ?case by simp
next
  case (Cons x xs)
  show ?case
    by (simp add: Let_def Cons.IH split: sum.splits prod.splits option.splits)
qed

lemma fill_sublist:
  assumes "p \<in> set ps"
  shows "sublist (fill meta p) (concat (map (fill meta) ps))"
proof -
  from assms obtain as bs where "ps = as @ p # bs"
    by (auto simp: in_set_conv_decomp)
  then have "concat (map (fill meta) ps)
               = concat (map (fill meta) as) @ fill meta p @ concat (map (fill meta) bs)"
    by simp
  then show ?thesis
    unfolding sublist_def by metis
qed

lemma mode_bits:
  "mode_0755 AND mode_0111 = mode_0111" "mode_0644 AND mode_0111 = 0"
  by (simp_all add: mode_0755_def mode_0644_def mode_0111_def)

lemma placeholder_at_Some:
  "placeholder_at ph tmpl = Some g \<Longrightarrow> ph g \<noteq> [] \<and> prefix (ph g) tmpl"
  by (auto simp: placeholder_at_def split: if_splits)

lemma placeholder_at_None:
  "placeholder_at ph tmpl = None \<Longrightarrow> ph f = [] \<or> \<not> prefix (ph f) tmpl"
  by (cases f) (auto simp: placeholder_at_def split: if_splits)

text \<open>The pass meets every placeholder that the template holds, when the placeholders are
  distinct: by induction along the pass, an occurrence is neither skipped as a literal
  nor swallowed by the placeholder of another field.\<close>

lemma pieces_meets_placeholder:
  "distinct_placeholders ph \<Longrightarrow> tmpl = pre @ ph f @ post \<Longrightarrow> Hole f \<in> set (pieces ph tmpl)"
proof (induction ph tmpl arbitrary: pre rule: pieces.induct)
  case (1 ph)
  then show ?case by (auto simp: distinct_placeholders_def)
next
  case (2 ph c cs)
  note d2 = "2.prems"(1) and eq = "2.prems"(2)
  have ne: "ph f \<noteq> []" using d2 by (simp add: distinct_placeholders_def)
  show ?case
  proof (cases "placeholder_at ph (c # cs)")
    case None
    have "pre \<noteq> []"
    proof
      assume "pre = []"
      with eq have "prefix (ph f) (c # cs)" by simp
      with placeholder_at_None [OF None, of f] ne show False by simp
    qed
    then obtain pre' where pre: "pre = c # pre'" and cs: "cs = pre' @ ph f @ post"
      using eq by (cases pre) auto
    from "2.IH"(1) [OF None d2 cs] show ?thesis
      using None by simp
  next
    case (Some g)
    note pg = placeholder_at_Some [OF Some]
    show ?thesis
    proof (cases "g = f")
      case True
      with Some show ?thesis by simp
    next
      case False
      let ?n = "length (ph g)"
      have "\<not> length pre < ?n"
      proof
        assume lt: "length pre < ?n"
        from pg have "prefix (drop (length pre) (ph g)) (drop (length pre) (c # cs))"
          by (auto simp: prefix_def)
        moreover have "drop (length pre) (c # cs) = ph f @ post"
          using eq by simp
        ultimately have "prefix (drop (length pre) (ph g)) (ph f @ post)" by simp
        moreover have "prefix (ph f) (ph f @ post)" by simp
        ultimately have "prefix (drop (length pre) (ph g)) (ph f) \<or> prefix (ph f) (drop (length pre) (ph g))"
          using prefix_same_cases by blast
        with d2 False lt show False
          by (auto simp: distinct_placeholders_def)
      qed
      then have ge: "?n \<le> length pre" by simp
      have "drop ?n (c # cs) = drop ?n pre @ ph f @ post"
        using eq ge by simp
      from "2.IH"(2) [OF Some d2 this] show ?thesis
        using Some by simp
    qed
  qed
qed

lemma pieces_no_placeholder:
  "(\<forall>f. ph f \<noteq> [] \<longrightarrow> \<not> sublist (ph f) tmpl) \<Longrightarrow> pieces ph tmpl = map Lit tmpl"
proof (induction ph tmpl rule: pieces.induct)
  case (1 ph)
  show ?case by simp
next
  case (2 ph c cs)
  have none: "placeholder_at ph (c # cs) = None"
  proof (cases "placeholder_at ph (c # cs)")
    case (Some g)
    from placeholder_at_Some [OF Some] have "ph g \<noteq> []" "sublist (ph g) (c # cs)"
      by auto
    with "2.prems" show ?thesis by blast
  qed simp
  have "\<forall>f. ph f \<noteq> [] \<longrightarrow> \<not> sublist (ph f) cs"
    using "2.prems" by (auto simp: sublist_Cons_right)
  from "2.IH"(1) [OF none this] show ?case
    using none by simp
qed

lemma substitute_holds_value:
  assumes "distinct_placeholders ph" and "sublist (ph f) tmpl"
  shows "sublist (field_value meta f) (substitute ph tmpl meta)"
proof -
  from assms(2) obtain pre post where "tmpl = pre @ ph f @ post"
    by (auto simp: sublist_def)
  from pieces_meets_placeholder [OF assms(1) this]
  have "Hole f \<in> set (pieces ph tmpl)" .
  from fill_sublist [OF this, of meta] show ?thesis
    by (simp add: substitute_def)
qed

lemma substitute_unchanged:
  assumes "\<forall>f. ph f \<noteq> [] \<longrightarrow> \<not> sublist (ph f) tmpl"
  shows "substitute ph tmpl meta = tmpl"
proof -
  have "concat (map (fill meta) (map Lit xs)) = xs" for xs
    by (induction xs) simp_all
  then show ?thesis
    by (simp add: substitute_def pieces_no_placeholder [OF assms])
qed

lemma BuildExtras_step:
  assumes ex: "Extras (BuildInfo meta) = pre @ extra # post"
    and pre: "BuildExtras_loop sys meta workdir verbose pre w = (None, w1)"
    and rd: "ReadFile sys (workdir @ ''/'' @ Template extra) (machine w1) = Inr tmpl"
  shows "BuildExtras sys meta workdir verbose w =
     (case Rejects sys tmpl meta of
        Some err \<Rightarrow> (Some (Wrapf err ''failed to inject metadata into template text'' []), w1)
      | None \<Rightarrow>
     (case WriteFile sys (workdir @ ''/'' @ FileName extra)
             (substitute (Placeholder sys) tmpl meta)
             (if Executable extra then mode_0755 else mode_0644) (machine w1) of
        (Some err, m') \<Rightarrow>
          (Some (Wrapf err ''failed to write file %s'' [S (workdir @ ''/'' @ FileName extra)]),
           \<lparr>machine = m',
            events = events w1 @ [Wrote (workdir @ ''/'' @ FileName extra)
                                    (substitute (Placeholder sys) tmpl meta)
                                    (if Executable extra then mode_0755 else mode_0644)]\<rparr>)
      | (None, m') \<Rightarrow>
          BuildExtras_loop sys meta workdir verbose post
           \<lparr>machine = m',
            events = events w1 @ [Wrote (workdir @ ''/'' @ FileName extra)
                                    (substitute (Placeholder sys) tmpl meta)
                                    (if Executable extra then mode_0755 else mode_0644)]\<rparr>))"
  using pre rd
  by (simp add: BuildExtras_def ex BuildExtras_loop_append Let_def ParseTemplateForMetadata_def
        os_WriteFile_def split: prod.splits option.splits)

lemma BuildExtras_unreadable:
  assumes ex: "Extras (BuildInfo meta) = pre @ extra # post"
    and pre: "BuildExtras_loop sys meta workdir verbose pre w = (None, w1)"
    and rd: "ReadFile sys (workdir @ ''/'' @ Template extra) (machine w1) = Inl err"
  shows "BuildExtras sys meta workdir verbose w =
           (Some (Wrapf err ''failed to read template file %s'' [S (workdir @ ''/'' @ Template extra)]), w1)"
  using pre rd
  by (simp add: BuildExtras_def ex BuildExtras_loop_append Let_def)

lemma pieces_example:
  "pieces go_placeholder ''name={{.Package}} v{{.Version}}''
     = [Lit CHR ''n'', Lit CHR ''a'', Lit CHR ''m'', Lit CHR ''e'', Lit CHR ''='',
        Hole FPackage, Lit CHR '' '', Lit CHR ''v'', Hole FVersion]"
  by (simp add: placeholder_at_def go_placeholder_def)

lemma substitute_example:
  "substitute go_placeholder ''name={{.Package}} v{{.Version}}'' gmeta_widget = ''name=acme/widget v1.2.3''"
  by (simp add: substitute_def pieces_example gmeta_widget_def del: pieces.simps)

lemma go_placeholders_distinct: "distinct_placeholders go_placeholder"
proof -
  have "\<forall>k<12. \<not> prefix (drop k ''{{.Package}}'') ''{{.Version}}''
                \<and> \<not> prefix ''{{.Version}}'' (drop k ''{{.Package}}'')
                \<and> \<not> prefix (drop k ''{{.Package}}'') ''{{.Description}}''
                \<and> \<not> prefix ''{{.Description}}'' (drop k ''{{.Package}}'')
                \<and> \<not> prefix (drop k ''{{.Version}}'') ''{{.Package}}''
                \<and> \<not> prefix ''{{.Package}}'' (drop k ''{{.Version}}'')
                \<and> \<not> prefix (drop k ''{{.Version}}'') ''{{.Description}}''
                \<and> \<not> prefix ''{{.Description}}'' (drop k ''{{.Version}}'')"
    by (simp add: All_less_Suc2 eval_nat_numeral)
  moreover have "\<forall>k<16. \<not> prefix (drop k ''{{.Description}}'') ''{{.Package}}''
                \<and> \<not> prefix ''{{.Package}}'' (drop k ''{{.Description}}'')
                \<and> \<not> prefix (drop k ''{{.Description}}'') ''{{.Version}}''
                \<and> \<not> prefix ''{{.Version}}'' (drop k ''{{.Description}}'')"
    by (simp add: All_less_Suc2 eval_nat_numeral)
  ultimately show ?thesis
    unfolding distinct_placeholders_def go_placeholder_def
    by (auto split: field.splits)
qed

lemma plain_no_placeholder:
  "\<forall>f. go_placeholder f \<noteq> [] \<longrightarrow> \<not> sublist (go_placeholder f) ''#!/bin/sh''"
proof (intro allI impI)
  fix f
  have "\<not> sublist ''{{.Package}}'' ''#!/bin/sh''" "\<not> sublist ''{{.Version}}'' ''#!/bin/sh''"
    "\<not> sublist ''{{.Description}}'' ''#!/bin/sh''"
    by code_simp+
  then show "\<not> sublist (go_placeholder f) ''#!/bin/sh''"
    by (cases f) (simp_all add: go_placeholder_def)
qed

text \<open>
  C8, as stated, fails in its last part: a template that holds no placeholder is written
  out as it is, and the output holds neither the package nor the version.
\<close>

theorem BuildExtras_renders_counterexample:
  "BuildExtras sys_plain gmeta_widget ''/w'' False w0 =
     (None, \<lparr>machine = \<lparr>files = {''/w/README'', ''/w/run.sh''}, other = ()\<rparr>,
             events = [Wrote ''/w/run.sh'' ''#!/bin/sh'' mode_0755,
                       Wrote ''/w/README'' ''#!/bin/sh'' mode_0644]\<rparr>)
   \<and> \<not> sublist (GPackage gmeta_widget) ''#!/bin/sh''
   \<and> \<not> sublist (GVersion gmeta_widget) ''#!/bin/sh''"
proof -
  have n: "\<not> sublist ''acme/widget'' ''#!/bin/sh''" "\<not> sublist ''1.2.3'' ''#!/bin/sh''"
    by code_simp+
  have out: "substitute go_placeholder ''#!/bin/sh'' meta = ''#!/bin/sh''" for meta
    by (rule substitute_unchanged [OF plain_no_placeholder])
  have "BuildExtras sys_plain gmeta_widget ''/w'' False w0 =
     (None, \<lparr>machine = \<lparr>files = {''/w/README'', ''/w/run.sh''}, other = ()\<rparr>,
             events = [Wrote ''/w/run.sh'' ''#!/bin/sh'' mode_0755,
                       Wrote ''/w/README'' ''#!/bin/sh'' mode_0644]\<rparr>)"
    by (simp add: BuildExtras_def Let_def ParseTemplateForMetadata_def os_WriteFile_def
          sys_plain_def sys_ok_def out gmeta_widget_def extra_script_def extra_readme_def w0_def
          del: pieces.simps)
  with n show ?thesis by (simp add: gmeta_widget_def)
qed

text \<open>
  C8, amended. For every extra artifact that \<^verbatim>\<open>BuildExtras\<close> reaches and whose template it
  can read: when the renderer refuses the template, the error is returned wrapped;
  otherwise the template with the values of the descriptor put in the place of the
  placeholders is written to the workdir and the artifact's file name, with mode
  \<^verbatim>\<open>0755\<close> when the artifact is executable and \<^verbatim>\<open>0644\<close> when it is not, and a failed write
  is returned wrapped and ends the loop. When the placeholders are distinct, the output
  contains the descriptor's package (version, description) whenever the text of the
  template holds the placeholder of the package (version, description); a template that
  holds no placeholder is written unchanged. \<^verbatim>\<open>0755\<close> has the three execute bits, \<^verbatim>\<open>0644\<close>
  has none of them.
\<close>

theorem BuildExtras_renders:
  "(\<forall>pre extra post w1 tmpl.
      Extras (BuildInfo meta) = pre @ extra # post \<longrightarrow>
      BuildExtras_loop sys meta workdir verbose pre w = (None, w1) \<longrightarrow>
      ReadFile sys (workdir @ ''/'' @ Template extra) (machine w1) = Inr tmpl \<longrightarrow>
      BuildExtras sys meta workdir verbose w =
        (case Rejects sys tmpl meta of
           Some err \<Rightarrow> (Some (Wrapf err ''failed to inject metadata into template text'' []), w1)
         | None \<Rightarrow>
        (case WriteFile sys (workdir @ ''/'' @ FileName extra)
                (substitute (Placeholder sys) tmpl meta)
                (if Executable extra then mode_0755 else mode_0644) (machine w1) of
           (Some err, m') \<Rightarrow>
             (Some (Wrapf err ''failed to write file %s'' [S (workdir @ ''/'' @ FileName extra)]),
              \<lparr>machine = m',
               events = events w1 @ [Wrote (workdir @ ''/'' @ FileName extra)
                                       (substitute (Placeholder sys) tmpl meta)
                                       (if Executable extra then mode_0755 else mode_0644)]\<rparr>)
         | (None, m') \<Rightarrow>
             BuildExtras_loop sys meta workdir verbose post
              \<lparr>machine = m',
               events = events w1 @ [Wrote (workdir @ ''/'' @ FileName extra)
                                       (substitute (Placeholder sys) tmpl meta)
                                       (if Executable extra then mode_0755 else mode_0644)]\<rparr>)))
   \<and> (\<forall>tmpl f. distinct_placeholders (Placeholder sys) \<longrightarrow> sublist (Placeholder sys f) tmpl \<longrightarrow>
         sublist (field_value meta f) (substitute (Placeholder sys) tmpl meta))
   \<and> (\<forall>tmpl. (\<forall>f. Placeholder sys f \<noteq> [] \<longrightarrow> \<not> sublist (Placeholder sys f) tmpl) \<longrightarrow>
         substitute (Placeholder sys) tmpl meta = tmpl)
   \<and> field_value meta FPackage = GPackage meta
   \<and> field_value meta FVersion = GVersion meta
   \<and> field_value meta FDescription = GDescription meta
   \<and> mode_0755 AND mode_0111 = mode_0111
   \<and> mode_0644 AND mode_0111 = 0"
proof (intro conjI allI impI)
  fix pre extra post w1 tmpl
  assume "Extras (BuildInfo meta) = pre @ extra # post"
    "BuildExtras_loop sys meta workdir verbose pre w = (None, w1)"
    "ReadFile sys (workdir @ ''/'' @ Template extra) (machine w1) = Inr tmpl"
  then show "BuildExtras sys meta workdir verbose w =
        (case Rejects sys tmpl meta of
           Some err \<Rightarrow> (Some (Wrapf err ''failed to inject metadata into template text'' []), w1)
         | None \<Rightarrow>
        (case WriteFile sys (workdir @ ''/'' @ FileName extra)
                (substitute (Placeholder sys) tmpl meta)
                (if Executable extra then mode_0755 else mode_0644) (machine w1) of
           (Some err, m') \<Rightarrow>
             (Some (Wrapf err ''failed to write file %s'' [S (workdir @ ''/'' @ FileName extra)]),
              \<lparr>machine = m',
               events = events w1 @ [Wrote (workdir @ ''/'' @ FileName extra)
                                       (substitute (Placeholder sys) tmpl meta)
                                       (if Executable extra then mode_0755 else mode_0644)]\<rparr>)
         | (None, m') \<Rightarrow>
             BuildExtras_loop sys meta workdir verbose post
              \<lparr>machine = m',
               events = events w1 @ [Wrote (workdir @ ''/'' @ FileName extra)
                                       (substitute (Placeholder sys) tmpl meta)
                                       (if Executable extra then mode_0755 else mode_0644)]\<rparr>))"
    by (rule BuildExtras_step)
next
  fix tmpl f
  assume "distinct_placeholders (Placeholder sys)" "sublist (Placeholder sys f) tmpl"
  then show "sublist (field_value meta f) (substitute (Placeholder sys) tmpl meta)"
    by (rule substitute_holds_value)
next
  fix tmpl
  assume "\<forall>f. Placeholder sys f \<noteq> [] \<longrightarrow> \<not> sublist (Placeholder sys f) tmpl"
  then show "substitute (Placeholder sys) tmpl meta = tmpl"
    by (rule substitute_unchanged)
qed (simp_all add: mode_bits)

text \<open>Two artifacts from one template that names the package and the version, and the
  rendering of a template that holds no placeholder.\<close>

theorem BuildExtras_renders_witness:
  "fst (BuildExtras sys_ok gmeta_widget ''/w'' False w0) = None
   \<and> events (snd (BuildExtras sys_ok gmeta_widget ''/w'' False w0)) =
        [Wrote ''/w/run.sh'' ''name=acme/widget v1.2.3'' mode_0755,
         Wrote ''/w/README'' ''name=acme/widget v1.2.3'' mode_0644]
   \<and> sublist ''acme/widget'' ''name=acme/widget v1.2.3''
   \<and> sublist ''1.2.3'' ''name=acme/widget v1.2.3''
   \<and> substitute (Placeholder sys_ok) ''#!/bin/sh'' gmeta_widget = ''#!/bin/sh''"
proof -
  note th = BuildExtras_renders [of gmeta_widget sys_ok "''/w''" False w0]
  have h1: "Extras (BuildInfo gmeta_widget) = [] @ extra_script # [extra_readme]"
    by (simp add: gmeta_widget_def)
  have h2: "BuildExtras_loop sys_ok gmeta_widget ''/w'' False [] w0 = (None, w0)"
    by simp
  have h3: "ReadFile sys_ok (''/w'' @ ''/'' @ Template extra_script) (machine w0)
              = Inr ''name={{.Package}} v{{.Version}}''"
    by (simp add: sys_ok_def)
  have ph: "Placeholder sys_ok = go_placeholder"
    by (simp add: sys_ok_def)
  have a: "fst (BuildExtras sys_ok gmeta_widget ''/w'' False w0) = None
     \<and> events (snd (BuildExtras sys_ok gmeta_widget ''/w'' False w0)) =
        [Wrote ''/w/run.sh'' ''name=acme/widget v1.2.3'' mode_0755,
         Wrote ''/w/README'' ''name=acme/widget v1.2.3'' mode_0644]"
    unfolding th [THEN conjunct1, rule_format, OF h1 h2 h3] ph
    by (simp add: Let_def ParseTemplateForMetadata_def os_WriteFile_def substitute_example
          sys_ok_def extra_script_def extra_readme_def w0_def del: pieces.simps)
  have d: "distinct_placeholders (Placeholder sys_ok)"
    unfolding ph by (rule go_placeholders_distinct)
  have sp: "sublist (Placeholder sys_ok FPackage) ''name={{.Package}} v{{.Version}}''"
    and sv: "sublist (Placeholder sys_ok FVersion) ''name={{.Package}} v{{.Version}}''"
    unfolding ph go_placeholder_def by code_simp+
  have b: "sublist ''acme/widget'' ''name=acme/widget v1.2.3''"
    using th [THEN conjunct2, THEN conjunct1, rule_format, OF d sp]
    unfolding ph substitute_example by (simp add: gmeta_widget_def)
  have c: "sublist ''1.2.3'' ''name=acme/widget v1.2.3''"
    using th [THEN conjunct2, THEN conjunct1, rule_format, OF d sv]
    unfolding ph substitute_example by (simp add: gmeta_widget_def)
  have np: "\<forall>f. Placeholder sys_ok f \<noteq> [] \<longrightarrow> \<not> sublist (Placeholder sys_ok f) ''#!/bin/sh''"
    unfolding ph by (rule plain_no_placeholder)
  note e = th [THEN conjunct2, THEN conjunct2, THEN conjunct1, THEN spec, THEN mp, OF np]
  from a b c e show ?thesis by simp
qed

section \<open>The pipeline\<close>

subsection \<open>Collecting the binaries\<close>

lemma collect_step:
  "wellformed_target a \<Longrightarrow>
   WholeShebang_collect sys gopath pkg cwd bp (a # rest) w =
     (if binary_src gopath pkg bp a \<notin> files (machine w)
      then (Returned (Some (Errorf ''Gox failed to build binary: %s\<newline>'' [S (binary_src gopath pkg bp a)])), w)
      else (case os_Rename sys (binary_src gopath pkg bp a) (binary_dst cwd bp a) w of
              (Some err, w') \<Rightarrow>
                (Returned (Some (Wrapf err ''Failed to collect binary %s\<newline>'' [S (binary_src gopath pkg bp a)])), w')
            | (None, w') \<Rightarrow> WholeShebang_collect sys gopath pkg cwd bp rest w'))"
  by (simp add: wellformed_target_def binary_src_def binary_dst_def stat_IsNotExist_def Let_def
      split: prod.splits option.splits)

lemma collect_append:
  "WholeShebang_collect sys gopath pkg cwd bp (xs @ ys) w =
     (case WholeShebang_collect sys gopath pkg cwd bp xs w of
        (Returned None, w1) \<Rightarrow> WholeShebang_collect sys gopath pkg cwd bp ys w1
      | (Returned (Some e), w1) \<Rightarrow> (Returned (Some e), w1)
      | (Panicked, w1) \<Rightarrow> (Panicked, w1))"
proof (induction xs arbitrary: w)
  case Nil
  show ?case by simp
next
  case (Cons a xs)
  show ?case
    by (simp add: Let_def Cons.IH split: prod.splits option.splits)
qed

lemma os_Rename_events: "events (snd (os_Rename sys a b w)) = events w @ [Renamed a b]"
  by (simp add: os_Rename_def split: prod.splits)

lemma collect_events:
  "\<exists>k\<le>length ts.
     events (snd (WholeShebang_collect sys gopath pkg cwd bp ts w))
       = events w @ map (\<lambda>a. Renamed (binary_src gopath pkg bp a) (binary_dst cwd bp a)) (take k ts)
     \<and> (fst (WholeShebang_collect sys gopath pkg cwd bp ts w) = Returned None \<longrightarrow> k = length ts)"
proof (induction ts arbitrary: w)
  case Nil
  show ?case by simp
next
  case (Cons a ts)
  let ?R = "\<lambda>a. Renamed (binary_src gopath pkg bp a) (binary_dst cwd bp a)"
  let ?C = "WholeShebang_collect sys gopath pkg cwd bp"
  have stop: "\<exists>k\<le>length (a # ts). events (snd (?C (a # ts) w)) = events w @ map ?R (take k (a # ts))
       \<and> (fst (?C (a # ts) w) = Returned None \<longrightarrow> k = length (a # ts))"
    if "events (snd (?C (a # ts) w)) = events w" "fst (?C (a # ts) w) \<noteq> Returned None"
    using that by (intro exI[of _ 0]) simp
  show ?case
  proof (cases "wellformed_target a")
    case False
    then have "?C (a # ts) w = (Panicked, w)"
      by (simp add: wellformed_target_def)
    then show ?thesis by (intro stop) simp_all
  next
    case wf: True
    show ?thesis
    proof (cases "binary_src gopath pkg bp a \<notin> files (machine w)")
      case True
      then have "?C (a # ts) w = (Returned (Some (Errorf ''Gox failed to build binary: %s\<newline>'' [S (binary_src gopath pkg bp a)])), w)"
        by (simp add: collect_step[OF wf] del: WholeShebang_collect.simps)
      then show ?thesis by (intro stop) simp_all
    next
      case False
      obtain r w' where ren: "os_Rename sys (binary_src gopath pkg bp a) (binary_dst cwd bp a) w = (r, w')"
        by (cases "os_Rename sys (binary_src gopath pkg bp a) (binary_dst cwd bp a) w")
      have ev: "events w' = events w @ [?R a]"
        using os_Rename_events[of sys "binary_src gopath pkg bp a" "binary_dst cwd bp a" w] ren by simp
      show ?thesis
      proof (cases r)
        case (Some e)
        have c: "?C (a # ts) w = (Returned (Some (Wrapf e ''Failed to collect binary %s\<newline>'' [S (binary_src gopath pkg bp a)])), w')"
          using False ren Some by (simp add: collect_step[OF wf] del: WholeShebang_collect.simps)
        have "Suc 0 \<le> length (a # ts)" by simp
        moreover have "events (snd (?C (a # ts) w)) = events w @ map ?R (take (Suc 0) (a # ts))"
          unfolding c using ev by simp
        moreover have "fst (?C (a # ts) w) = Returned None \<longrightarrow> Suc 0 = length (a # ts)"
          unfolding c by simp
        ultimately show ?thesis by (intro exI[of _ "Suc 0"] conjI)
      next
        case None
        have c: "?C (a # ts) w = ?C ts w'"
          using False ren None by (simp add: collect_step[OF wf] del: WholeShebang_collect.simps)
        from Cons.IH[of w'] show ?thesis
        proof (elim exE conjE)
          fix k
          assume k1: "k \<le> length ts"
            and k2: "events (snd (?C ts w')) = events w' @ map ?R (take k ts)"
            and k3: "fst (?C ts w') = Returned None \<longrightarrow> k = length ts"
          have "Suc k \<le> length (a # ts)" using k1 by simp
          moreover have "events (snd (?C (a # ts) w)) = events w @ map ?R (take (Suc k) (a # ts))"
            unfolding c k2 ev by simp
          moreover have "fst (?C (a # ts) w) = Returned None \<longrightarrow> Suc k = length (a # ts)"
            unfolding c using k3 by simp
          ultimately show ?thesis by (intro exI[of _ "Suc k"] conjI)
        qed
      qed
    qed
  qed
qed

lemma strings_Split_nonempty: "strings_Split s c \<noteq> []"
  by (induction s) (auto split: list.splits)

lemma strings_Split_no_sep: "c \<notin> set s \<Longrightarrow> strings_Split s c = [s]"
  by (induction s) auto

lemma strings_Split_pair:
  "c \<notin> set a \<Longrightarrow> c \<notin> set b \<Longrightarrow> strings_Split (a @ c # b) c = [a, b]"
  by (induction a) (auto simp: strings_Split_no_sep)

lemma collect_missing:
  assumes wf: "wellformed_target a"
    and pre: "WholeShebang_collect sys gopath pkg cwd bp pre w = (Returned None, w1)"
    and miss: "binary_src gopath pkg bp a \<notin> files (machine w1)"
  shows "WholeShebang_collect sys gopath pkg cwd bp (pre @ a # post) w =
     (Returned (Some (Errorf ''Gox failed to build binary: %s\<newline>'' [S (binary_src gopath pkg bp a)])), w1)"
  by (simp add: collect_append pre collect_step [OF wf] miss del: WholeShebang_collect.simps)

lemma collect_rename:
  assumes wf: "wellformed_target a"
    and pre: "WholeShebang_collect sys gopath pkg cwd bp pre w = (Returned None, w1)"
    and ex: "binary_src gopath pkg bp a \<in> files (machine w1)"
    and ren: "Rename sys (binary_src gopath pkg bp a) (binary_dst cwd bp a) (machine w1) = (r, m2)"
  shows "WholeShebang_collect sys gopath pkg cwd bp (pre @ a # post) w =
     (case r of
        Some e \<Rightarrow>
          (Returned (Some (Wrapf e ''Failed to collect binary %s\<newline>'' [S (binary_src gopath pkg bp a)])),
           \<lparr>machine = m2,
            events = events w @ map (\<lambda>a. Renamed (binary_src gopath pkg bp a) (binary_dst cwd bp a)) (pre @ [a])\<rparr>)
      | None \<Rightarrow>
          WholeShebang_collect sys gopath pkg cwd bp post
           \<lparr>machine = m2,
            events = events w @ map (\<lambda>a. Renamed (binary_src gopath pkg bp a) (binary_dst cwd bp a)) (pre @ [a])\<rparr>)"
proof -
  from collect_events [of pre sys gopath pkg cwd bp w]
  have ev: "events w1 = events w @ map (\<lambda>a. Renamed (binary_src gopath pkg bp a) (binary_dst cwd bp a)) pre"
    unfolding pre by (elim exE conjE) simp
  show ?thesis
    by (simp add: collect_append pre collect_step [OF wf] ex os_Rename_def ren ev
             del: WholeShebang_collect.simps split: option.splits)
qed

lemma binary_paths:
  assumes "CHR ''/'' \<notin> set osname" and "CHR ''/'' \<notin> set archname"
  shows "binary_src gopath pkg bp (osname @ ''/'' @ archname)
           = gopath @ ''/src/'' @ pkg @ ''/'' @ bp @ ''_'' @ osname @ ''_'' @ archname"
    and "binary_dst cwd bp (osname @ ''/'' @ archname) = cwd @ ''/'' @ bp @ ''_'' @ osname @ ''_'' @ archname"
    and "wellformed_target (osname @ ''/'' @ archname)"
  using strings_Split_pair [OF assms]
  by (simp_all add: binary_src_def binary_dst_def binary_name_def wellformed_target_def)

subsection \<open>What every stage preserves\<close>













lemma WholeShebang_rest_build:
  assumes c1: "CreateGoPath sys wd (machine w) = (Inr gopath, m1)"
    and c2: "GovendorInstall sys gopath verbose (w\<lparr>machine := m1\<rparr>) = (None, w2)"
    and cm: "ReadMetadata sys ''metadata.json'' (machine w2) = Inr cm"
    and c3: "Checkout sys gopath (Package cm) branch verbose (machine w2) = (None, m3)"
    and c4: "GovendorSync sys gopath (Package cm) verbose (w2\<lparr>machine := m3\<rparr>) = (None, w4)"
    and c5: "GoTest sys gopath (Package cm) verbose w4 = (None, w5)"
  shows "WholeShebang_rest sys cwd wd branch True sign publish verbose w =
     (case WholeShebang_collect sys gopath (Package cm) cwd (last (strings_Split (Package cm) CHR ''/''))
             (BuildTargets cm) (snd (mason_Build sys gopath (Package cm) branch verbose w5)) of
        (Returned err, w7) \<Rightarrow>
          (Returned (Metadata_zero\<lparr>WorkDir := wd, Path := gopath, Package := Package cm,
                                    Version := Version cm,
                                    GitPath := GitSSHUrlFromPackage sys (Package cm)\<rparr>, err), w7)
      | (Panicked, w7) \<Rightarrow> (Panicked, w7))"
  using assms
  by (simp add: WholeShebang_rest_def Let_def lift_m_def split: prod.splits outcome.splits)

text \<open>
  C7. In \<^verbatim>\<open>WholeShebang\<close>, once the tests have passed and \<^verbatim>\<open>Build\<close> has run, the loop
  goes through the build targets in order. For each well-formed target \<^verbatim>\<open>os/arch\<close> it
  looks for the binary \<^verbatim>\<open>prefix_os_arch\<close> in the package's directory of the workspace,
  where \<^verbatim>\<open>prefix\<close> is the last part of the package name: a missing binary is returned
  as an error of its own that names the binary, whatever \<^verbatim>\<open>Build\<close> returned; an existing
  binary is renamed into the directory the caller started in; a rename that fails is
  returned wrapped, and no later binary is renamed. The renames done are those of the
  first \<open>k\<close> targets, all of them when the loop returns no error.
\<close>

theorem WholeShebang_collects_binaries:
  "(\<exists>k\<le>length ts.
      events (snd (WholeShebang_collect sys gopath pkg cwd bp ts w))
        = events w @ map (\<lambda>a. Renamed (binary_src gopath pkg bp a) (binary_dst cwd bp a)) (take k ts)
      \<and> (fst (WholeShebang_collect sys gopath pkg cwd bp ts w) = Returned None \<longrightarrow> k = length ts))
   \<and> (\<forall>pre a post w1. ts = pre @ a # post \<longrightarrow> wellformed_target a \<longrightarrow>
         WholeShebang_collect sys gopath pkg cwd bp pre w = (Returned None, w1) \<longrightarrow>
         binary_src gopath pkg bp a \<notin> files (machine w1) \<longrightarrow>
         WholeShebang_collect sys gopath pkg cwd bp ts w =
           (Returned (Some (Errorf ''Gox failed to build binary: %s\<newline>''
                              [S (binary_src gopath pkg bp a)])), w1))
   \<and> (\<forall>pre a post w1 r m2. ts = pre @ a # post \<longrightarrow> wellformed_target a \<longrightarrow>
         WholeShebang_collect sys gopath pkg cwd bp pre w = (Returned None, w1) \<longrightarrow>
         binary_src gopath pkg bp a \<in> files (machine w1) \<longrightarrow>
         Rename sys (binary_src gopath pkg bp a) (binary_dst cwd bp a) (machine w1) = (r, m2) \<longrightarrow>
         WholeShebang_collect sys gopath pkg cwd bp ts w =
           (case r of
              Some e \<Rightarrow>
                (Returned (Some (Wrapf e ''Failed to collect binary %s\<newline>''
                                   [S (binary_src gopath pkg bp a)])),
                 \<lparr>machine = m2,
                  events = events w @ map (\<lambda>a. Renamed (binary_src gopath pkg bp a) (binary_dst cwd bp a))
                                          (pre @ [a])\<rparr>)
            | None \<Rightarrow>
                WholeShebang_collect sys gopath pkg cwd bp post
                 \<lparr>machine = m2,
                  events = events w @ map (\<lambda>a. Renamed (binary_src gopath pkg bp a) (binary_dst cwd bp a))
                                          (pre @ [a])\<rparr>))
   \<and> (\<forall>osname archname. CHR ''/'' \<notin> set osname \<longrightarrow> CHR ''/'' \<notin> set archname \<longrightarrow>
         wellformed_target (osname @ ''/'' @ archname)
         \<and> binary_src gopath pkg bp (osname @ ''/'' @ archname)
             = gopath @ ''/src/'' @ pkg @ ''/'' @ bp @ ''_'' @ osname @ ''_'' @ archname
         \<and> binary_dst cwd bp (osname @ ''/'' @ archname)
             = cwd @ ''/'' @ bp @ ''_'' @ osname @ ''_'' @ archname)
   \<and> (\<forall>wd m1 w2 cm m3 w4 w5 branch verbose sign publish.
         CreateGoPath sys wd (machine w) = (Inr gopath, m1) \<longrightarrow>
         GovendorInstall sys gopath verbose (w\<lparr>machine := m1\<rparr>) = (None, w2) \<longrightarrow>
         ReadMetadata sys ''metadata.json'' (machine w2) = Inr cm \<longrightarrow>
         Checkout sys gopath (Package cm) branch verbose (machine w2) = (None, m3) \<longrightarrow>
         GovendorSync sys gopath (Package cm) verbose (w2\<lparr>machine := m3\<rparr>) = (None, w4) \<longrightarrow>
         GoTest sys gopath (Package cm) verbose w4 = (None, w5) \<longrightarrow>
         WholeShebang_rest sys cwd wd branch True sign publish verbose w =
           (case WholeShebang_collect sys gopath (Package cm) cwd
                   (last (strings_Split (Package cm) CHR ''/'')) (BuildTargets cm)
                   (snd (mason_Build sys gopath (Package cm) branch verbose w5)) of
              (Returned err, w7) \<Rightarrow>
                (Returned (Metadata_zero\<lparr>WorkDir := wd, Path := gopath, Package := Package cm,
                                          Version := Version cm,
                                          GitPath := GitSSHUrlFromPackage sys (Package cm)\<rparr>, err), w7)
            | (Panicked, w7) \<Rightarrow> (Panicked, w7)))"
proof (intro conjI allI impI)
  show "\<exists>k\<le>length ts.
      events (snd (WholeShebang_collect sys gopath pkg cwd bp ts w))
        = events w @ map (\<lambda>a. Renamed (binary_src gopath pkg bp a) (binary_dst cwd bp a)) (take k ts)
      \<and> (fst (WholeShebang_collect sys gopath pkg cwd bp ts w) = Returned None \<longrightarrow> k = length ts)"
    by (rule collect_events)
next
  fix pre a post w1
  assume ts: "ts = pre @ a # post" and h: "wellformed_target a"
    "WholeShebang_collect sys gopath pkg cwd bp pre w = (Returned None, w1)"
    "binary_src gopath pkg bp a \<notin> files (machine w1)"
  show "WholeShebang_collect sys gopath pkg cwd bp ts w =
           (Returned (Some (Errorf ''Gox failed to build binary: %s\<newline>''
                              [S (binary_src gopath pkg bp a)])), w1)"
    unfolding ts by (rule collect_missing [OF h])
next
  fix pre a post w1 r m2
  assume ts: "ts = pre @ a # post" and h: "wellformed_target a"
    "WholeShebang_collect sys gopath pkg cwd bp pre w = (Returned None, w1)"
    "binary_src gopath pkg bp a \<in> files (machine w1)"
    "Rename sys (binary_src gopath pkg bp a) (binary_dst cwd bp a) (machine w1) = (r, m2)"
  show "WholeShebang_collect sys gopath pkg cwd bp ts w =
           (case r of
              Some e \<Rightarrow>
                (Returned (Some (Wrapf e ''Failed to collect binary %s\<newline>''
                                   [S (binary_src gopath pkg bp a)])),
                 \<lparr>machine = m2,
                  events = events w @ map (\<lambda>a. Renamed (binary_src gopath pkg bp a) (binary_dst cwd bp a))
                                          (pre @ [a])\<rparr>)
            | None \<Rightarrow>
                WholeShebang_collect sys gopath pkg cwd bp post
                 \<lparr>machine = m2,
                  events = events w @ map (\<lambda>a. Renamed (binary_src gopath pkg bp a) (binary_dst cwd bp a))
                                          (pre @ [a])\<rparr>)"
    unfolding ts by (rule collect_rename [OF h])
next
  fix wd m1 w2 cm m3 w4 w5 branch verbose sign publish
  assume "CreateGoPath sys wd (machine w) = (Inr gopath, m1)"
    "GovendorInstall sys gopath verbose (w\<lparr>machine := m1\<rparr>) = (None, w2)"
    "ReadMetadata sys ''metadata.json'' (machine w2) = Inr cm"
    "Checkout sys gopath (Package cm) branch verbose (machine w2) = (None, m3)"
    "GovendorSync sys gopath (Package cm) verbose (w2\<lparr>machine := m3\<rparr>) = (None, w4)"
    "GoTest sys gopath (Package cm) verbose w4 = (None, w5)"
  then show "WholeShebang_rest sys cwd wd branch True sign publish verbose w =
           (case WholeShebang_collect sys gopath (Package cm) cwd
                   (last (strings_Split (Package cm) CHR ''/'')) (BuildTargets cm)
                   (snd (mason_Build sys gopath (Package cm) branch verbose w5)) of
              (Returned err, w7) \<Rightarrow>
                (Returned (Metadata_zero\<lparr>WorkDir := wd, Path := gopath, Package := Package cm,
                                          Version := Version cm,
                                          GitPath := GitSSHUrlFromPackage sys (Package cm)\<rparr>, err), w7)
            | (Panicked, w7) \<Rightarrow> (Panicked, w7))"
    by (rule WholeShebang_rest_build)
next
  fix osname archname :: string
  assume a: "CHR ''/'' \<notin> set osname" "CHR ''/'' \<notin> set archname"
  show "wellformed_target (osname @ ''/'' @ archname)"
    by (rule binary_paths(3) [OF a])
  show "binary_src gopath pkg bp (osname @ ''/'' @ archname)
             = gopath @ ''/src/'' @ pkg @ ''/'' @ bp @ ''_'' @ osname @ ''_'' @ archname"
    by (rule binary_paths(1) [OF a])
  show "binary_dst cwd bp (osname @ ''/'' @ archname)
             = cwd @ ''/'' @ bp @ ''_'' @ osname @ ''_'' @ archname"
    by (rule binary_paths(2) [OF a])
qed

text \<open>Two targets, the binary of the second is missing: the first is moved, the error
  names the second.\<close>

theorem WholeShebang_collects_binaries_witness:
  "fst (WholeShebang_collect sys_ok ''/work/go'' ''acme/widget'' ''/home/op/proj'' ''widget''
          [''linux/amd64'', ''darwin/amd64''] w_stale)
     = Returned (Some (Errorf ''Gox failed to build binary: %s\<newline>''
                         [S ''/work/go/src/acme/widget/widget_darwin_amd64'']))
   \<and> events (snd (WholeShebang_collect sys_ok ''/work/go'' ''acme/widget'' ''/home/op/proj'' ''widget''
          [''linux/amd64'', ''darwin/amd64''] w_stale))
     = [Renamed ''/work/go/src/acme/widget/widget_linux_amd64'' ''/home/op/proj/widget_linux_amd64'']"
proof -
  define w1 where "w1 = snd (WholeShebang_collect sys_ok ''/work/go'' ''acme/widget'' ''/home/op/proj''
                               ''widget'' [''linux/amd64''] w_stale)"
  have ev: "events w1 = [Renamed ''/work/go/src/acme/widget/widget_linux_amd64'' ''/home/op/proj/widget_linux_amd64'']"
    and fs: "''/work/go/src/acme/widget/widget_darwin_amd64'' \<notin> files (machine w1)"
    and h2: "WholeShebang_collect sys_ok ''/work/go'' ''acme/widget'' ''/home/op/proj'' ''widget''
               [''linux/amd64''] w_stale = (Returned None, w1)"
    by (simp_all add: w1_def stat_IsNotExist_def os_Rename_def binary_name_def Let_def
                      sys_ok_def w_stale_def)
  have h1: "[''linux/amd64'', ''darwin/amd64''] = [''linux/amd64''] @ ''darwin/amd64'' # []"
    by simp
  have wf: "wellformed_target ''darwin/amd64''"
    by (simp add: wellformed_target_def)
  have src: "binary_src ''/work/go'' ''acme/widget'' ''widget'' ''darwin/amd64''
               = ''/work/go/src/acme/widget/widget_darwin_amd64''"
    by (simp add: binary_src_def binary_name_def)
  have h3: "binary_src ''/work/go'' ''acme/widget'' ''widget'' ''darwin/amd64'' \<notin> files (machine w1)"
    unfolding src by (rule fs)
  have "WholeShebang_collect sys_ok ''/work/go'' ''acme/widget'' ''/home/op/proj'' ''widget''
          [''linux/amd64'', ''darwin/amd64''] w_stale =
           (Returned (Some (Errorf ''Gox failed to build binary: %s\<newline>''
              [S (binary_src ''/work/go'' ''acme/widget'' ''widget'' ''darwin/amd64'')])), w1)"
    by (rule WholeShebang_collects_binaries [of "[''linux/amd64'', ''darwin/amd64'']" sys_ok "''/work/go''"
          "''acme/widget''" "''/home/op/proj''" "''widget''" w_stale,
          THEN conjunct2, THEN conjunct1, rule_format, OF h1 wf h2 h3])
  then show ?thesis unfolding src by (simp add: ev)
qed

subsection \<open>Unfolding a run\<close>

lemmas run_defs = WholeShebang_def WholeShebang_rest_def lift_m_def GovendorInstall_def
  GovendorSync_def GoTest_def GoxInstall_def mason_Build_def os_Run_def os_Rename_def
  stat_IsNotExist_def GOPATH_env_def Let_def binary_name_def
  Metadata_zero_def

subsection \<open>The workspace\<close>















subsection \<open>Errors of the stages\<close>

text \<open>
  C5 does not hold of the code: the result of \<^verbatim>\<open>Build\<close> is not assigned (line 194).
  In the workspace \<^verbatim>\<open>/work\<close>, which holds the binary of an earlier run, on a machine where
  gox cannot be installed, the tests pass, \<^verbatim>\<open>Build\<close> fails, and \<^verbatim>\<open>WholeShebang\<close> moves the
  old binary and returns no error.
\<close>

theorem WholeShebang_drops_Build_error:
  "GoTest sys_nogox ''/work/go'' ''acme/widget'' False
     \<lparr>machine = machine w_tested, events = butlast (events w_tested)\<rparr> = (None, w_tested)
   \<and> fst (mason_Build sys_nogox ''/work/go'' ''acme/widget'' ''master'' False w_tested)
       = Some (Wrapf (Ext ''exit status 1'') ''Failed to install gox'' [])
   \<and> fst (WholeShebang sys_nogox ''/work'' ''master'' True False False False w_stale)
       = Returned (Metadata_zero\<lparr>WorkDir := ''/work'', Path := ''/work/go'', Package := ''acme/widget'',
                                 Version := ''1.2.3'', GitPath := ''git@acme/widget''\<rparr>, None)
   \<and> events (snd (WholeShebang sys_nogox ''/work'' ''master'' True False False False w_stale))
       = events w_tested
         @ [Exec \<lparr>cmd_path = ''/usr/bin/go'', cmd_args = [''get'', ''github.com/mitchellh/gox''],
                  cmd_env = [''HOME=/home/op'', ''GOPATH=/work/go'']\<rparr>,
            Renamed ''/work/go/src/acme/widget/widget_linux_amd64'' ''/home/op/proj/widget_linux_amd64'']"
  by (simp add: run_defs sys_nogox_def sys_ok_def meta_widget_def w_stale_def w_tested_def)

end
